theory Spec2Isabelle
  imports Complex_Main "HOL-Library.Word" "HOL-Library.Signed_Division"
begin

unbundle bit_operations_syntax

section \<open>The MPU-9250 driver (drivers/mpu9250/mpu9250.c)\<close>

text \<open>
  The driver talks to the sensor over an I2C bus and keeps a configuration
  snapshot \<open>dev->conf\<close>. Every driver function is modelled as a function from
  the device descriptor and the bus to a return code (the C \<open>int\<close>), the
  updated descriptor and the updated bus.
\<close>

subsection \<open>Machine integers\<close>

type_synonym u8 = "8 word"
type_synonym u16 = "16 word"

subsection \<open>Registers, delays and the bus\<close>

text \<open>
  The register addresses are macros of \<open>mpu9250-regs.h\<close>. Registers are
  identified by the macro's name; two different names are two different
  registers.
\<close>

datatype reg =
    MPU9250_PWR_MGMT_1_REG
  | MPU9250_PWR_MGMT_2_REG
  | MPU9250_INT_ENABLE_REG
  | MPU9250_INT_PIN_CFG_REG
  | MPU9250_USER_CTRL_REG
  | MPU9250_CONFIG
  | MPU9250_GYRO_CFG_REG
  | MPU9250_ACCEL_CFG_REG
  | MPU9250_ACCEL_CFG_REG2
  | MPU9250_RATE_DIV_REG
  | MPU9250_GYRO_START_REG
  | MPU9250_ACCEL_START_REG
  | MPU9250_MOT_DETECT_CTRL_REG
  | MPU9250_WOM_THR_REG
  | MPU9250_LP_ACCEL_ODR_REG
  | MPU9250_I2C_MST_REG
  | MPU9250_I2C_DELAY_CTRL_REG
  | MPU9250_SLAVE0_ADDR_REG
  | MPU9250_SLAVE0_REG_REG
  | MPU9250_SLAVE0_CTRL_REG
  | MPU9250_SLAVE1_ADDR_REG
  | MPU9250_SLAVE1_REG_REG
  | MPU9250_SLAVE1_CTRL_REG
  | MPU9250_SLAVE1_DATA_OUT_REG
  | MPU9250_SLAVE4_CTRL_REG
  | COMPASS_WHOAMI_REG
  | COMPASS_CNTL_REG
  | COMPASS_ASAX_REG
  | COMPASS_DATA_START_REG

text \<open>The durations handed to \<open>xtimer_usleep\<close>, again by the macro's name.\<close>

datatype delay =
    MPU9250_RESET_SLEEP_US
  | MPU9250_PWR_CHANGE_SLEEP_US
  | MPU9250_COMP_MODE_SLEEP_US
  | MPU9250_BYPASS_SLEEP_US

text \<open>
  What the driver does to its environment, in the order it does it: an
  attempt to acquire the bus (with its outcome), the release, a single
  register read (with the byte read), a burst read (with the bytes read), a
  register write and a blocking delay.
\<close>

datatype event =
    Acquire bool
  | Release
  | Read_reg u8 reg u8
  | Read_regs u8 reg "u8 list"
  | Write_reg u8 reg u8
  | Usleep delay

text \<open>
  The bus and the chips behind it are the environment of the driver. The
  model records the events issued so far in \<open>trace\<close>; whether an acquisition
  succeeds and which byte a read returns are arbitrary functions of that
  history (\<open>acquirable\<close>, \<open>respond\<close>; the last argument of \<open>respond\<close> is the
  offset of the byte inside a burst read). \<open>master_init_fails\<close> is the outcome
  of \<open>i2c_init_master\<close>.
\<close>

record i2c_bus =
  trace :: "event list"
  acquirable :: "event list \<Rightarrow> bool"
  respond :: "event list \<Rightarrow> u8 \<Rightarrow> reg \<Rightarrow> nat \<Rightarrow> u8"
  master_init_fails :: bool

definition emit :: "event \<Rightarrow> i2c_bus \<Rightarrow> i2c_bus" where
  "emit e bus = bus\<lparr>trace := trace bus @ [e]\<rparr>"

definition i2c_init_master :: "i2c_bus \<Rightarrow> int" where
  "i2c_init_master bus = (if master_init_fails bus then -1 else 0)"

definition i2c_acquire :: "i2c_bus \<Rightarrow> int \<times> i2c_bus" where
  "i2c_acquire bus =
     (let ok = acquirable bus (trace bus)
      in (if ok then 0 else -1, emit (Acquire ok) bus))"

definition i2c_release :: "i2c_bus \<Rightarrow> i2c_bus" where
  "i2c_release bus = emit Release bus"

definition i2c_read_reg :: "u8 \<Rightarrow> reg \<Rightarrow> i2c_bus \<Rightarrow> u8 \<times> i2c_bus" where
  "i2c_read_reg a r bus =
     (let v = respond bus (trace bus) a r 0
      in (v, emit (Read_reg a r v) bus))"

definition i2c_read_regs :: "u8 \<Rightarrow> reg \<Rightarrow> nat \<Rightarrow> i2c_bus \<Rightarrow> u8 list \<times> i2c_bus" where
  "i2c_read_regs a r n bus =
     (let vs = map (respond bus (trace bus) a r) [0..<n]
      in (vs, emit (Read_regs a r vs) bus))"

definition i2c_write_reg :: "u8 \<Rightarrow> reg \<Rightarrow> u8 \<Rightarrow> i2c_bus \<Rightarrow> i2c_bus" where
  "i2c_write_reg a r v bus = emit (Write_reg a r v) bus"

definition xtimer_usleep :: "delay \<Rightarrow> i2c_bus \<Rightarrow> i2c_bus" where
  "xtimer_usleep d bus = emit (Usleep d) bus"

text \<open>The events a call added: the trace after it, without the trace before it.\<close>

definition issued :: "i2c_bus \<Rightarrow> i2c_bus \<Rightarrow> event list" where
  "issued before after = drop (length (trace before)) (trace after)"

fun is_write_to :: "reg \<Rightarrow> event \<Rightarrow> bool" where
  "is_write_to r (Write_reg a r' v) = (r' = r)"
| "is_write_to r _ = False"

fun is_access_to :: "reg \<Rightarrow> event \<Rightarrow> bool" where
  "is_access_to r (Write_reg a r' v) = (r' = r)"
| "is_access_to r (Read_reg a r' v) = (r' = r)"
| "is_access_to r (Read_regs a r' vs) = (r' = r)"
| "is_access_to r _ = False"

fun is_write :: "event \<Rightarrow> bool" where
  "is_write (Write_reg a r v) = True"
| "is_write _ = False"

text \<open>The registers written by a list of events, in order.\<close>

fun written_regs :: "event list \<Rightarrow> reg list" where
  "written_regs [] = []"
| "written_regs (Write_reg a r v # es) = r # written_regs es"
| "written_regs (e # es) = written_regs es"

subsection \<open>Constants of the headers\<close>

text \<open>
  The bit masks and register values are macros of \<open>mpu9250-regs.h\<close> and
  \<open>mpu9250.h\<close>, which are not among the sources. They are parameters of the
  model: every function takes the assignment \<open>k\<close> of the macros it uses, and
  the theorems hold for every assignment. \<open>reg_addr\<close> is the numeric address
  of a register, needed where the driver writes an address as data;
  \<open>gyro_fsr_val\<close>, \<open>accel_fsr_val\<close> and \<open>lpf_val\<close> are the numeric values of
  the enumerators.
\<close>

datatype mpu9250_pwr_t = MPU9250_SENSOR_PWR_OFF | MPU9250_SENSOR_PWR_ON

text \<open>
  A C enumeration holds any integer. The switch statements of the driver have
  a \<open>default\<close> branch for a range that is none of the four enumerators;
  \<open>GYRO_FSR_other n\<close> and \<open>ACCEL_FSR_other n\<close> stand for such a stored value
  \<open>n\<close>.
\<close>

datatype mpu9250_gyro_ranges_t =
    MPU9250_GYRO_FSR_250DPS
  | MPU9250_GYRO_FSR_500DPS
  | MPU9250_GYRO_FSR_1000DPS
  | MPU9250_GYRO_FSR_2000DPS
  | GYRO_FSR_other int

datatype mpu9250_accel_ranges_t =
    MPU9250_ACCEL_FSR_2G
  | MPU9250_ACCEL_FSR_4G
  | MPU9250_ACCEL_FSR_8G
  | MPU9250_ACCEL_FSR_16G
  | ACCEL_FSR_other int

datatype mpu9250_lpf_t =
    MPU9250_FILTER_184HZ
  | MPU9250_FILTER_92HZ
  | MPU9250_FILTER_41HZ
  | MPU9250_FILTER_20HZ
  | MPU9250_FILTER_10HZ
  | MPU9250_FILTER_5HZ

record hdr =
  MPU9250_PWR_RESET :: u8
  MPU9250_PWR_WAKEUP :: u8
  MPU9250_PWR_PLL :: u8
  MPU9250_PWR_CYCLE :: u8
  BIT_PWR_MGMT1_SLEEP :: u8
  MPU9250_PWR_ACCEL :: u8
  MPU9250_PWR_GYRO :: u8
  BIT_I2C_MST_EN :: u8
  BIT_I2C_BYPASS_EN :: u8
  BIT_WAIT_FOR_ES :: u8
  BIT_SLAVE_RW :: u8
  BIT_SLAVE_EN :: u8
  BIT_SLV0_DELAY_EN :: u8
  BIT_SLV1_DELAY_EN :: u8
  MPU9250_COMP_POWER_DOWN :: u8
  MPU9250_COMP_SINGLE_MEASURE :: u8
  MPU9250_COMP_FUSE_ROM :: u8
  MPU9250_COMP_WHOAMI_ANSWER :: u8
  MPU9250_ACCEL_CFG_WOM :: u8
  MPU9250_ACCEL_INTEL_CFG :: u8
  MPU9250_INT_WOM :: u8
  reg_addr :: "reg \<Rightarrow> u8"
  gyro_fsr_val :: "mpu9250_gyro_ranges_t \<Rightarrow> u8"
  accel_fsr_val :: "mpu9250_accel_ranges_t \<Rightarrow> u8"
  lpf_val :: "mpu9250_lpf_t \<Rightarrow> u8"

definition REG_RESET :: u8 where
  "REG_RESET = 0x00"

definition MAX_VALUE :: int where
  "MAX_VALUE = 0x7FFF"

text \<open>
  Modelled from the spec: the bounds \<open>MPU9250_MIN_SAMPLE_RATE\<close>,
  \<open>MPU9250_MAX_SAMPLE_RATE\<close>, \<open>MPU9250_MIN_COMP_SMPL_RATE\<close> and
  \<open>MPU9250_MAX_COMP_SMPL_RATE\<close> are macros of the missing \<open>mpu9250.h\<close>; the
  spec gives the sample rate the valid range [4, 1000] Hz and the compass
  sample rate the valid range [1, 100] Hz.
\<close>

definition MPU9250_MIN_SAMPLE_RATE :: int where
  "MPU9250_MIN_SAMPLE_RATE = 4"

definition MPU9250_MAX_SAMPLE_RATE :: int where
  "MPU9250_MAX_SAMPLE_RATE = 1000"

definition MPU9250_MIN_COMP_SMPL_RATE :: int where
  "MPU9250_MIN_COMP_SMPL_RATE = 1"

definition MPU9250_MAX_COMP_SMPL_RATE :: int where
  "MPU9250_MAX_COMP_SMPL_RATE = 100"

subsection \<open>The device descriptor\<close>

text \<open>
  \<open>mpu9250_params_t\<close>, \<open>mpu9250_status_t\<close>, \<open>mpu9250_t\<close> and
  \<open>mpu9250_results_t\<close> are declared in the missing \<open>mpu9250.h\<close>. The fields
  are the ones the driver uses; their widths are those of the setters'
  arguments (\<open>uint16_t\<close> for the sample rate, \<open>uint8_t\<close> for the compass
  sample rate and the sensitivity adjustments) and of the \<open>int16_t\<close> axis
  values. The sample rate of the parameters is named \<open>params_sample_rate\<close>,
  the stored one \<open>sample_rate\<close>.
\<close>

record mpu9250_params_t =
  i2c :: nat
  addr :: u8
  comp_addr :: u8
  params_sample_rate :: u16

record mpu9250_status_t =
  accel_pwr :: mpu9250_pwr_t
  gyro_pwr :: mpu9250_pwr_t
  compass_pwr :: mpu9250_pwr_t
  gyro_fsr :: mpu9250_gyro_ranges_t
  accel_fsr :: mpu9250_accel_ranges_t
  sample_rate :: u16
  compass_sample_rate :: u8
  compass_x_adj :: u8
  compass_y_adj :: u8
  compass_z_adj :: u8

record mpu9250_t =
  params :: mpu9250_params_t
  conf :: mpu9250_status_t

record mpu9250_results_t =
  x_axis :: "16 word"
  y_axis :: "16 word"
  z_axis :: "16 word"

definition DEFAULT_STATUS :: mpu9250_status_t where
  "DEFAULT_STATUS =
     \<lparr> accel_pwr = MPU9250_SENSOR_PWR_ON,
       gyro_pwr = MPU9250_SENSOR_PWR_ON,
       compass_pwr = MPU9250_SENSOR_PWR_ON,
       gyro_fsr = MPU9250_GYRO_FSR_250DPS,
       accel_fsr = MPU9250_ACCEL_FSR_16G,
       sample_rate = 0,
       compass_sample_rate = 0,
       compass_x_adj = 0,
       compass_y_adj = 0,
       compass_z_adj = 0 \<rparr>"

abbreviation DEV_ADDR :: "mpu9250_t \<Rightarrow> u8" where
  "DEV_ADDR dev \<equiv> addr (params dev)"

abbreviation DEV_COMP_ADDR :: "mpu9250_t \<Rightarrow> u8" where
  "DEV_COMP_ADDR dev \<equiv> comp_addr (params dev)"

subsection \<open>Power setters\<close>

definition mpu9250_set_accel_power ::
  "hdr \<Rightarrow> mpu9250_t \<Rightarrow> mpu9250_pwr_t \<Rightarrow> i2c_bus \<Rightarrow> int \<times> mpu9250_t \<times> i2c_bus" where
  "mpu9250_set_accel_power k dev pwr_conf bus =
     (if accel_pwr (conf dev) = pwr_conf then (0, dev, bus)
      else case i2c_acquire bus of (rc, bus) \<Rightarrow>
        if rc \<noteq> 0 then (-1, dev, bus)
        else case i2c_read_reg (DEV_ADDR dev) MPU9250_PWR_MGMT_2_REG bus of (pwr_2, bus) \<Rightarrow>
          let (pwr_1_setting, pwr_2_setting) =
                (if pwr_conf = MPU9250_SENSOR_PWR_ON
                 then (MPU9250_PWR_WAKEUP k, pwr_2 AND NOT (MPU9250_PWR_ACCEL k))
                 else (BIT_PWR_MGMT1_SLEEP k, pwr_2 OR MPU9250_PWR_ACCEL k));
              bus = (if gyro_pwr (conf dev) = MPU9250_SENSOR_PWR_OFF
                        \<and> compass_pwr (conf dev) = MPU9250_SENSOR_PWR_OFF
                     then i2c_write_reg (DEV_ADDR dev) MPU9250_PWR_MGMT_1_REG pwr_1_setting bus
                     else bus);
              bus = i2c_write_reg (DEV_ADDR dev) MPU9250_PWR_MGMT_2_REG pwr_2_setting bus;
              bus = i2c_release bus;
              dev = dev\<lparr>conf := (conf dev)\<lparr>accel_pwr := pwr_conf\<rparr>\<rparr>;
              bus = xtimer_usleep MPU9250_PWR_CHANGE_SLEEP_US bus
          in (0, dev, bus))"

definition mpu9250_set_gyro_power ::
  "hdr \<Rightarrow> mpu9250_t \<Rightarrow> mpu9250_pwr_t \<Rightarrow> i2c_bus \<Rightarrow> int \<times> mpu9250_t \<times> i2c_bus" where
  "mpu9250_set_gyro_power k dev pwr_conf bus =
     (if gyro_pwr (conf dev) = pwr_conf then (0, dev, bus)
      else case i2c_acquire bus of (rc, bus) \<Rightarrow>
        if rc \<noteq> 0 then (-1, dev, bus)
        else case i2c_read_reg (DEV_ADDR dev) MPU9250_PWR_MGMT_2_REG bus of (pwr_2, bus) \<Rightarrow>
          let (pwr_2_setting, bus) =
                (if pwr_conf = MPU9250_SENSOR_PWR_ON
                 then (pwr_2 AND NOT (MPU9250_PWR_GYRO k),
                       i2c_write_reg (DEV_ADDR dev) MPU9250_PWR_MGMT_1_REG (MPU9250_PWR_PLL k) bus)
                 else (pwr_2 OR MPU9250_PWR_GYRO k,
                       if accel_pwr (conf dev) = MPU9250_SENSOR_PWR_OFF
                          \<and> compass_pwr (conf dev) = MPU9250_SENSOR_PWR_OFF
                       then i2c_write_reg (DEV_ADDR dev) MPU9250_PWR_MGMT_1_REG
                              (BIT_PWR_MGMT1_SLEEP k) bus
                       else i2c_write_reg (DEV_ADDR dev) MPU9250_PWR_MGMT_1_REG
                              (MPU9250_PWR_WAKEUP k) bus));
              bus = i2c_write_reg (DEV_ADDR dev) MPU9250_PWR_MGMT_2_REG pwr_2_setting bus;
              bus = i2c_release bus;
              dev = dev\<lparr>conf := (conf dev)\<lparr>gyro_pwr := pwr_conf\<rparr>\<rparr>;
              bus = xtimer_usleep MPU9250_PWR_CHANGE_SLEEP_US bus
          in (0, dev, bus))"

definition mpu9250_set_compass_power ::
  "hdr \<Rightarrow> mpu9250_t \<Rightarrow> mpu9250_pwr_t \<Rightarrow> i2c_bus \<Rightarrow> int \<times> mpu9250_t \<times> i2c_bus" where
  "mpu9250_set_compass_power k dev pwr_conf bus =
     (if compass_pwr (conf dev) = pwr_conf then (0, dev, bus)
      else case i2c_acquire bus of (rc, bus) \<Rightarrow>
        if rc \<noteq> 0 then (-1, dev, bus)
        else case i2c_read_reg (DEV_ADDR dev) MPU9250_USER_CTRL_REG bus of (usr_ctrl, bus) \<Rightarrow>
          let (pwr_1_setting, s1_do_setting, usr_ctrl_setting) =
                (if pwr_conf = MPU9250_SENSOR_PWR_ON
                 then (MPU9250_PWR_WAKEUP k, MPU9250_COMP_SINGLE_MEASURE k,
                       usr_ctrl OR BIT_I2C_MST_EN k)
                 else (BIT_PWR_MGMT1_SLEEP k, MPU9250_COMP_POWER_DOWN k,
                       usr_ctrl AND NOT (BIT_I2C_MST_EN k)));
              bus = (if gyro_pwr (conf dev) = MPU9250_SENSOR_PWR_OFF
                        \<and> accel_pwr (conf dev) = MPU9250_SENSOR_PWR_OFF
                     then i2c_write_reg (DEV_ADDR dev) MPU9250_PWR_MGMT_1_REG pwr_1_setting bus
                     else bus);
              bus = i2c_write_reg (DEV_ADDR dev) MPU9250_SLAVE1_DATA_OUT_REG s1_do_setting bus;
              bus = i2c_write_reg (DEV_ADDR dev) MPU9250_USER_CTRL_REG usr_ctrl_setting bus;
              bus = i2c_release bus;
              dev = dev\<lparr>conf := (conf dev)\<lparr>compass_pwr := pwr_conf\<rparr>\<rparr>;
              bus = xtimer_usleep MPU9250_PWR_CHANGE_SLEEP_US bus
          in (0, dev, bus))"

subsection \<open>Reading the gyroscope and the accelerometer\<close>

text \<open>
  Two bytes of a burst read, high byte first, as the \<open>int16_t\<close> the driver
  assigns them to.
\<close>

definition be16 :: "u8 \<Rightarrow> u8 \<Rightarrow> 16 word" where
  "be16 hi lo = push_bit 8 (ucast hi) OR ucast lo"

text \<open>
  \<open>(temp * fsr) / MAX_VALUE\<close>, stored in an \<open>int16_t\<close> field: the product of
  an \<open>int16_t\<close> and a \<open>uint16_t\<close> is computed in \<open>int\<close> (at most
  32768 * 16000 in absolute value, inside 32 bits), and C division truncates
  towards zero.
\<close>

definition normalize :: "16 word \<Rightarrow> int \<Rightarrow> 16 word" where
  "normalize temp fsr = word_of_int ((sint temp * fsr) sdiv MAX_VALUE)"

fun gyro_fsr_switch :: "mpu9250_gyro_ranges_t \<Rightarrow> int option" where
  "gyro_fsr_switch MPU9250_GYRO_FSR_250DPS = Some 250"
| "gyro_fsr_switch MPU9250_GYRO_FSR_500DPS = Some 500"
| "gyro_fsr_switch MPU9250_GYRO_FSR_1000DPS = Some 1000"
| "gyro_fsr_switch MPU9250_GYRO_FSR_2000DPS = Some 2000"
| "gyro_fsr_switch (GYRO_FSR_other n) = None"

fun accel_fsr_switch :: "mpu9250_accel_ranges_t \<Rightarrow> int option" where
  "accel_fsr_switch MPU9250_ACCEL_FSR_2G = Some 2000"
| "accel_fsr_switch MPU9250_ACCEL_FSR_4G = Some 4000"
| "accel_fsr_switch MPU9250_ACCEL_FSR_8G = Some 8000"
| "accel_fsr_switch MPU9250_ACCEL_FSR_16G = Some 16000"
| "accel_fsr_switch (ACCEL_FSR_other n) = None"

definition read_axes ::
  "u8 \<Rightarrow> reg \<Rightarrow> int \<Rightarrow> mpu9250_results_t \<Rightarrow> i2c_bus \<Rightarrow> int \<times> mpu9250_results_t \<times> i2c_bus" where
  "read_axes a start fsr output bus =
     (case i2c_acquire bus of (rc, bus) \<Rightarrow>
        if rc \<noteq> 0 then (-1, output, bus)
        else case i2c_read_regs a start 6 bus of (data, bus) \<Rightarrow>
          let bus = i2c_release bus;
              output = output\<lparr>x_axis := normalize (be16 (data ! 0) (data ! 1)) fsr\<rparr>;
              output = output\<lparr>y_axis := normalize (be16 (data ! 2) (data ! 3)) fsr\<rparr>;
              output = output\<lparr>z_axis := normalize (be16 (data ! 4) (data ! 5)) fsr\<rparr>
          in (0, output, bus))"

definition mpu9250_read_gyro ::
  "mpu9250_t \<Rightarrow> mpu9250_results_t \<Rightarrow> i2c_bus \<Rightarrow> int \<times> mpu9250_results_t \<times> i2c_bus" where
  "mpu9250_read_gyro dev output bus =
     (case gyro_fsr_switch (gyro_fsr (conf dev)) of
        None \<Rightarrow> (-2, output, bus)
      | Some fsr \<Rightarrow> read_axes (DEV_ADDR dev) MPU9250_GYRO_START_REG fsr output bus)"

definition mpu9250_read_accel ::
  "mpu9250_t \<Rightarrow> mpu9250_results_t \<Rightarrow> i2c_bus \<Rightarrow> int \<times> mpu9250_results_t \<times> i2c_bus" where
  "mpu9250_read_accel dev output bus =
     (case accel_fsr_switch (accel_fsr (conf dev)) of
        None \<Rightarrow> (-2, output, bus)
      | Some fsr \<Rightarrow> read_axes (DEV_ADDR dev) MPU9250_ACCEL_START_REG fsr output bus)"

subsection \<open>Range setters\<close>

definition mpu9250_set_gyro_fsr ::
  "hdr \<Rightarrow> mpu9250_t \<Rightarrow> mpu9250_gyro_ranges_t \<Rightarrow> i2c_bus \<Rightarrow> int \<times> mpu9250_t \<times> i2c_bus" where
  "mpu9250_set_gyro_fsr k dev fsr bus =
     (if gyro_fsr (conf dev) = fsr then (0, dev, bus)
      else case fsr of
        GYRO_FSR_other n \<Rightarrow> (-2, dev, bus)
      | _ \<Rightarrow>
        (case i2c_acquire bus of (rc, bus) \<Rightarrow>
           if rc \<noteq> 0 then (-1, dev, bus)
           else
             let bus = i2c_write_reg (DEV_ADDR dev) MPU9250_GYRO_CFG_REG
                         (push_bit 3 (gyro_fsr_val k fsr)) bus;
                 bus = i2c_release bus;
                 dev = dev\<lparr>conf := (conf dev)\<lparr>gyro_fsr := fsr\<rparr>\<rparr>
             in (0, dev, bus)))"

definition mpu9250_set_accel_fsr ::
  "hdr \<Rightarrow> mpu9250_t \<Rightarrow> mpu9250_accel_ranges_t \<Rightarrow> i2c_bus \<Rightarrow> int \<times> mpu9250_t \<times> i2c_bus" where
  "mpu9250_set_accel_fsr k dev fsr bus =
     (if accel_fsr (conf dev) = fsr then (0, dev, bus)
      else case fsr of
        ACCEL_FSR_other n \<Rightarrow> (-2, dev, bus)
      | _ \<Rightarrow>
        (case i2c_acquire bus of (rc, bus) \<Rightarrow>
           if rc \<noteq> 0 then (-1, dev, bus)
           else
             let bus = i2c_write_reg (DEV_ADDR dev) MPU9250_ACCEL_CFG_REG
                         (push_bit 3 (accel_fsr_val k fsr)) bus;
                 bus = i2c_release bus;
                 dev = dev\<lparr>conf := (conf dev)\<lparr>accel_fsr := fsr\<rparr>\<rparr>
             in (0, dev, bus)))"

subsection \<open>Sample rates and the low-pass filter\<close>

text \<open>The threshold chain at the head of \<open>conf_lpf\<close>.\<close>

definition lpf_setting_of :: "u16 \<Rightarrow> mpu9250_lpf_t" where
  "lpf_setting_of half_rate =
     (if half_rate \<ge> 184 then MPU9250_FILTER_184HZ
      else if half_rate \<ge> 92 then MPU9250_FILTER_92HZ
      else if half_rate \<ge> 42 then MPU9250_FILTER_41HZ
      else if half_rate \<ge> 20 then MPU9250_FILTER_20HZ
      else if half_rate \<ge> 10 then MPU9250_FILTER_10HZ
      else MPU9250_FILTER_5HZ)"

definition conf_lpf :: "hdr \<Rightarrow> mpu9250_t \<Rightarrow> u16 \<Rightarrow> i2c_bus \<Rightarrow> i2c_bus" where
  "conf_lpf k dev half_rate bus =
     (let lpf_setting = lpf_setting_of half_rate;
          bus = i2c_write_reg (DEV_ADDR dev) MPU9250_CONFIG (lpf_val k lpf_setting) bus
      in case i2c_read_reg (DEV_ADDR dev) MPU9250_ACCEL_CFG_REG2 bus of (acceldata, bus) \<Rightarrow>
        let acceldata = acceldata AND NOT 0x0F;
            acceldata = acceldata OR lpf_val k lpf_setting;
            bus = i2c_write_reg (DEV_ADDR dev) MPU9250_ACCEL_CFG_REG2 acceldata bus
        in case i2c_read_reg (DEV_ADDR dev) MPU9250_GYRO_CFG_REG bus of (gyrodata, bus) \<Rightarrow>
          let gyrodata = gyrodata AND NOT 0x03
          in i2c_write_reg (DEV_ADDR dev) MPU9250_GYRO_CFG_REG gyrodata bus)"

text \<open>
  \<open>1000 / rate - 1\<close> is computed in \<open>int\<close> and converted to the \<open>uint8_t\<close>
  divider; the stored rate is \<open>1000 / (((uint16_t) divider) + 1)\<close>, again
  computed in \<open>int\<close>. The range check comes first, so the division is never by
  zero.
\<close>

definition mpu9250_set_sample_rate ::
  "hdr \<Rightarrow> mpu9250_t \<Rightarrow> u16 \<Rightarrow> i2c_bus \<Rightarrow> int \<times> mpu9250_t \<times> i2c_bus" where
  "mpu9250_set_sample_rate k dev rate bus =
     (if uint rate < MPU9250_MIN_SAMPLE_RATE \<or> uint rate > MPU9250_MAX_SAMPLE_RATE
      then (-2, dev, bus)
      else if sample_rate (conf dev) = rate then (0, dev, bus)
      else
        let divider = (word_of_int (1000 div uint rate - 1) :: u8)
        in case i2c_acquire bus of (rc, bus) \<Rightarrow>
          if rc \<noteq> 0 then (-1, dev, bus)
          else
            let bus = i2c_write_reg (DEV_ADDR dev) MPU9250_RATE_DIV_REG divider bus;
                dev = dev\<lparr>conf := (conf dev)
                        \<lparr>sample_rate := word_of_int (1000 div (uint (ucast divider :: u16) + 1))\<rparr>\<rparr>;
                bus = conf_lpf k dev (drop_bit 1 (sample_rate (conf dev))) bus;
                bus = i2c_release bus
            in (0, dev, bus))"

definition mpu9250_set_compass_sample_rate ::
  "hdr \<Rightarrow> mpu9250_t \<Rightarrow> u8 \<Rightarrow> i2c_bus \<Rightarrow> int \<times> mpu9250_t \<times> i2c_bus" where
  "mpu9250_set_compass_sample_rate k dev rate bus =
     (if uint rate < MPU9250_MIN_COMP_SMPL_RATE \<or> uint rate > MPU9250_MAX_COMP_SMPL_RATE
         \<or> uint rate > uint (sample_rate (conf dev))
      then (-2, dev, bus)
      else if compass_sample_rate (conf dev) = rate then (0, dev, bus)
      else
        let divider = (word_of_int (uint (sample_rate (conf dev)) div uint rate - 1) :: u8)
        in case i2c_acquire bus of (rc, bus) \<Rightarrow>
          if rc \<noteq> 0 then (-1, dev, bus)
          else
            let bus = i2c_write_reg (DEV_ADDR dev) MPU9250_SLAVE4_CTRL_REG divider bus;
                bus = i2c_release bus;
                dev = dev\<lparr>conf := (conf dev)
                        \<lparr>compass_sample_rate :=
                           word_of_int (uint (sample_rate (conf dev))
                                          div (uint (ucast divider :: u16) + 1))\<rparr>\<rparr>
            in (0, dev, bus))"

subsection \<open>Bypass mode, compass bring-up and initialization\<close>

definition conf_bypass :: "hdr \<Rightarrow> mpu9250_t \<Rightarrow> u8 \<Rightarrow> i2c_bus \<Rightarrow> i2c_bus" where
  "conf_bypass k dev bypass_enable bus =
     (case i2c_read_reg (DEV_ADDR dev) MPU9250_USER_CTRL_REG bus of (data, bus) \<Rightarrow>
        if bypass_enable \<noteq> 0 then
          let data = data AND NOT (BIT_I2C_MST_EN k);
              bus = i2c_write_reg (DEV_ADDR dev) MPU9250_USER_CTRL_REG data bus;
              bus = xtimer_usleep MPU9250_BYPASS_SLEEP_US bus
          in i2c_write_reg (DEV_ADDR dev) MPU9250_INT_PIN_CFG_REG (BIT_I2C_BYPASS_EN k) bus
        else
          let data = data OR BIT_I2C_MST_EN k;
              bus = i2c_write_reg (DEV_ADDR dev) MPU9250_USER_CTRL_REG data bus;
              bus = xtimer_usleep MPU9250_BYPASS_SLEEP_US bus
          in i2c_write_reg (DEV_ADDR dev) MPU9250_INT_PIN_CFG_REG REG_RESET bus)"

definition compass_init :: "hdr \<Rightarrow> mpu9250_t \<Rightarrow> i2c_bus \<Rightarrow> int \<times> mpu9250_t \<times> i2c_bus" where
  "compass_init k dev bus =
     (let bus = conf_bypass k dev 1 bus
      in case i2c_read_reg (DEV_COMP_ADDR dev) COMPASS_WHOAMI_REG bus of (whoami, bus) \<Rightarrow>
        if whoami \<noteq> MPU9250_COMP_WHOAMI_ANSWER k then (-1, dev, bus)
        else
          let bus = i2c_write_reg (DEV_COMP_ADDR dev) COMPASS_CNTL_REG
                      (MPU9250_COMP_POWER_DOWN k) bus;
              bus = xtimer_usleep MPU9250_COMP_MODE_SLEEP_US bus;
              bus = i2c_write_reg (DEV_COMP_ADDR dev) COMPASS_CNTL_REG
                      (MPU9250_COMP_FUSE_ROM k) bus;
              bus = xtimer_usleep MPU9250_COMP_MODE_SLEEP_US bus
          in case i2c_read_regs (DEV_COMP_ADDR dev) COMPASS_ASAX_REG 3 bus of (data, bus) \<Rightarrow>
            let dev = dev\<lparr>conf := (conf dev)\<lparr>compass_x_adj := data ! 0\<rparr>\<rparr>;
                dev = dev\<lparr>conf := (conf dev)\<lparr>compass_y_adj := data ! 1\<rparr>\<rparr>;
                dev = dev\<lparr>conf := (conf dev)\<lparr>compass_z_adj := data ! 2\<rparr>\<rparr>;
                bus = i2c_write_reg (DEV_COMP_ADDR dev) COMPASS_CNTL_REG
                        (MPU9250_COMP_POWER_DOWN k) bus;
                bus = xtimer_usleep MPU9250_COMP_MODE_SLEEP_US bus;
                bus = conf_bypass k dev 0 bus;
                bus = i2c_write_reg (DEV_ADDR dev) MPU9250_I2C_MST_REG (BIT_WAIT_FOR_ES k) bus;
                bus = i2c_write_reg (DEV_ADDR dev) MPU9250_SLAVE0_ADDR_REG
                        (BIT_SLAVE_RW k OR DEV_COMP_ADDR dev) bus;
                bus = i2c_write_reg (DEV_ADDR dev) MPU9250_SLAVE0_REG_REG
                        (reg_addr k COMPASS_DATA_START_REG) bus;
                bus = i2c_write_reg (DEV_ADDR dev) MPU9250_SLAVE0_CTRL_REG
                        (BIT_SLAVE_EN k OR 0x06) bus;
                bus = i2c_write_reg (DEV_ADDR dev) MPU9250_SLAVE1_ADDR_REG
                        (DEV_COMP_ADDR dev) bus;
                bus = i2c_write_reg (DEV_ADDR dev) MPU9250_SLAVE1_REG_REG
                        (reg_addr k COMPASS_CNTL_REG) bus;
                bus = i2c_write_reg (DEV_ADDR dev) MPU9250_SLAVE1_CTRL_REG
                        (BIT_SLAVE_EN k OR 0x01) bus;
                bus = i2c_write_reg (DEV_ADDR dev) MPU9250_SLAVE1_DATA_OUT_REG
                        (MPU9250_COMP_SINGLE_MEASURE k) bus;
                bus = i2c_write_reg (DEV_ADDR dev) MPU9250_I2C_DELAY_CTRL_REG
                        (BIT_SLV0_DELAY_EN k OR BIT_SLV1_DELAY_EN k) bus
            in (0, dev, bus))"

text \<open>
  \<open>mpu9250_reset_and_init\<close> ignores the results of \<open>i2c_acquire\<close> and of the
  setters it calls.
\<close>

definition mpu9250_reset_and_init ::
  "hdr \<Rightarrow> mpu9250_t \<Rightarrow> i2c_bus \<Rightarrow> int \<times> mpu9250_t \<times> i2c_bus" where
  "mpu9250_reset_and_init k dev bus =
     (let bus = snd (i2c_acquire bus);
          bus = i2c_write_reg (DEV_ADDR dev) MPU9250_PWR_MGMT_1_REG (MPU9250_PWR_RESET k) bus;
          bus = xtimer_usleep MPU9250_RESET_SLEEP_US bus;
          bus = i2c_write_reg (DEV_ADDR dev) MPU9250_PWR_MGMT_1_REG (MPU9250_PWR_WAKEUP k) bus;
          bus = i2c_release bus;
          (dev, bus) = snd (mpu9250_set_gyro_fsr k dev MPU9250_GYRO_FSR_2000DPS bus);
          (dev, bus) = snd (mpu9250_set_accel_fsr k dev MPU9250_ACCEL_FSR_2G bus);
          (dev, bus) = snd (mpu9250_set_sample_rate k dev (params_sample_rate (params dev)) bus);
          bus = snd (i2c_acquire bus);
          bus = i2c_write_reg (DEV_ADDR dev) MPU9250_INT_ENABLE_REG REG_RESET bus
      in case compass_init k dev bus of (rc, dev, bus) \<Rightarrow>
        if rc \<noteq> 0 then (-2, dev, i2c_release bus)
        else
          let bus = i2c_release bus;
              (dev, bus) = snd (mpu9250_set_compass_sample_rate k dev 10 bus);
              bus = snd (i2c_acquire bus);
              bus = i2c_write_reg (DEV_ADDR dev) MPU9250_PWR_MGMT_1_REG (MPU9250_PWR_PLL k) bus
          in case i2c_read_reg (DEV_ADDR dev) MPU9250_PWR_MGMT_2_REG bus of (temp, bus) \<Rightarrow>
            let temp = temp AND NOT (MPU9250_PWR_ACCEL k OR MPU9250_PWR_GYRO k);
                bus = i2c_write_reg (DEV_ADDR dev) MPU9250_PWR_MGMT_2_REG temp bus;
                bus = i2c_release bus;
                bus = xtimer_usleep MPU9250_PWR_CHANGE_SLEEP_US bus
            in (0, dev, bus))"

definition mpu9250_init ::
  "hdr \<Rightarrow> mpu9250_t \<Rightarrow> mpu9250_params_t \<Rightarrow> i2c_bus \<Rightarrow> int \<times> mpu9250_t \<times> i2c_bus" where
  "mpu9250_init k dev params' bus =
     (let dev = dev\<lparr>params := params'\<rparr>;
          dev = dev\<lparr>conf := DEFAULT_STATUS\<rparr>
      in if i2c_init_master bus \<noteq> 0 then (-1, dev, bus)
         else mpu9250_reset_and_init k dev bus)"

subsection \<open>Wake on motion\<close>

text \<open>
  The operands of \<open>~\<close>, \<open>|\<close> and \<open>&\<close> are promoted to \<open>int\<close> and the result is
  converted back to \<open>uint8_t\<close>; the low eight bits are those of the same
  operations on bytes.
\<close>

definition mpu9250_enable_wom ::
  "hdr \<Rightarrow> mpu9250_t \<Rightarrow> u8 \<Rightarrow> u8 \<Rightarrow> i2c_bus \<Rightarrow> int \<times> mpu9250_t \<times> i2c_bus" where
  "mpu9250_enable_wom k dev wom_threshold wake_up_freq bus =
     (case i2c_acquire bus of (rc, bus) \<Rightarrow>
        if rc \<noteq> 0 then (-1, dev, bus)
        else
          let bus = conf_bypass k dev 1 bus;
              bus = i2c_write_reg (DEV_COMP_ADDR dev) COMPASS_CNTL_REG
                      (MPU9250_COMP_POWER_DOWN k) bus;
              bus = xtimer_usleep MPU9250_COMP_MODE_SLEEP_US bus;
              bus = conf_bypass k dev 0 bus;
              bus = i2c_write_reg (DEV_ADDR dev) MPU9250_PWR_MGMT_1_REG (MPU9250_PWR_RESET k) bus;
              bus = xtimer_usleep MPU9250_RESET_SLEEP_US bus;
              bus = i2c_write_reg (DEV_ADDR dev) MPU9250_PWR_MGMT_1_REG (MPU9250_PWR_WAKEUP k) bus
          in case i2c_read_reg (DEV_ADDR dev) MPU9250_PWR_MGMT_2_REG bus of (temp, bus) \<Rightarrow>
            let temp = temp AND NOT (MPU9250_PWR_ACCEL k OR NOT (MPU9250_PWR_GYRO k));
                bus = i2c_write_reg (DEV_ADDR dev) MPU9250_PWR_MGMT_2_REG temp bus
            in case i2c_read_reg (DEV_ADDR dev) MPU9250_ACCEL_CFG_REG2 bus of (temp, bus) \<Rightarrow>
              let temp = temp AND NOT 0x0F;
                  temp = temp OR MPU9250_ACCEL_CFG_WOM k;
                  bus = i2c_write_reg (DEV_ADDR dev) MPU9250_ACCEL_CFG_REG2 temp bus;
                  bus = i2c_write_reg (DEV_ADDR dev) MPU9250_INT_ENABLE_REG (MPU9250_INT_WOM k) bus
              in case i2c_read_reg (DEV_ADDR dev) MPU9250_MOT_DETECT_CTRL_REG bus of (temp, bus) \<Rightarrow>
                let temp = temp AND NOT (MPU9250_ACCEL_INTEL_CFG k);
                    temp = temp OR MPU9250_ACCEL_INTEL_CFG k;
                    bus = i2c_write_reg (DEV_ADDR dev) MPU9250_MOT_DETECT_CTRL_REG temp bus;
                    bus = i2c_write_reg (DEV_ADDR dev) MPU9250_WOM_THR_REG wom_threshold bus;
                    bus = i2c_write_reg (DEV_ADDR dev) MPU9250_LP_ACCEL_ODR_REG wake_up_freq bus;
                    bus = i2c_write_reg (DEV_ADDR dev) MPU9250_PWR_MGMT_1_REG
                            (MPU9250_PWR_CYCLE k) bus;
                    bus = i2c_release bus
                in (0, dev, bus))"

section \<open>Notions used to state the properties\<close>

text \<open>All three subsystems are off.\<close>

definition all_off :: "mpu9250_status_t \<Rightarrow> bool" where
  "all_off c \<longleftrightarrow> accel_pwr c = MPU9250_SENSOR_PWR_OFF \<and> gyro_pwr c = MPU9250_SENSOR_PWR_OFF
     \<and> compass_pwr c = MPU9250_SENSOR_PWR_OFF"

text \<open>The bandwidth, in Hz, that each filter enumerator names.\<close>

fun lpf_bandwidth :: "mpu9250_lpf_t \<Rightarrow> int" where
  "lpf_bandwidth MPU9250_FILTER_184HZ = 184"
| "lpf_bandwidth MPU9250_FILTER_92HZ = 92"
| "lpf_bandwidth MPU9250_FILTER_41HZ = 41"
| "lpf_bandwidth MPU9250_FILTER_20HZ = 20"
| "lpf_bandwidth MPU9250_FILTER_10HZ = 10"
| "lpf_bandwidth MPU9250_FILTER_5HZ = 5"

text \<open>
  The formulas of the specification, in its own words:
  \<open>1000/(round(1000/rate)-1+1)\<close> for the stored sample rate and
  \<open>sensor_rate/(round(sensor_rate/r)-1+1)\<close> for the stored compass rate, with
  \<open>round\<close> rounding the real quotient to the nearest integer and the outer
  division the integer division of the stored integer rate.
\<close>

definition spec_sample_rate :: "int \<Rightarrow> int" where
  "spec_sample_rate rate = 1000 div (round (1000 / real_of_int rate) - 1 + 1)"

definition spec_compass_rate :: "int \<Rightarrow> int \<Rightarrow> int" where
  "spec_compass_rate sensor_rate r =
     sensor_rate div (round (real_of_int sensor_rate / real_of_int r) - 1 + 1)"

text \<open>Sequences of setter calls, each of which succeeds (returns 0).\<close>

datatype setter =
    Set_accel_power mpu9250_pwr_t
  | Set_gyro_power mpu9250_pwr_t
  | Set_compass_power mpu9250_pwr_t
  | Set_gyro_fsr mpu9250_gyro_ranges_t
  | Set_accel_fsr mpu9250_accel_ranges_t
  | Set_sample_rate u16
  | Set_compass_sample_rate u8

fun call_setter :: "hdr \<Rightarrow> mpu9250_t \<Rightarrow> setter \<Rightarrow> i2c_bus \<Rightarrow> int \<times> mpu9250_t \<times> i2c_bus" where
  "call_setter k dev (Set_accel_power p) bus = mpu9250_set_accel_power k dev p bus"
| "call_setter k dev (Set_gyro_power p) bus = mpu9250_set_gyro_power k dev p bus"
| "call_setter k dev (Set_compass_power p) bus = mpu9250_set_compass_power k dev p bus"
| "call_setter k dev (Set_gyro_fsr f) bus = mpu9250_set_gyro_fsr k dev f bus"
| "call_setter k dev (Set_accel_fsr f) bus = mpu9250_set_accel_fsr k dev f bus"
| "call_setter k dev (Set_sample_rate r) bus = mpu9250_set_sample_rate k dev r bus"
| "call_setter k dev (Set_compass_sample_rate r) bus = mpu9250_set_compass_sample_rate k dev r bus"

fun run_setters :: "hdr \<Rightarrow> mpu9250_t \<Rightarrow> setter list \<Rightarrow> i2c_bus \<Rightarrow> (mpu9250_t \<times> i2c_bus) option" where
  "run_setters k dev [] bus = Some (dev, bus)"
| "run_setters k dev (c # cs) bus =
     (case call_setter k dev c bus of (rc, dev', bus') \<Rightarrow>
        if rc = 0 then run_setters k dev' cs bus' else None)"

text \<open>
  The stored rates that sequences of setter calls produce from the default
  configuration: the sample rate is 0 (never set) or \<open>1000 div d\<close> for a
  divider \<open>d\<close> between 1 and 250.
\<close>

definition rates_inv :: "mpu9250_status_t \<Rightarrow> bool" where
  "rates_inv c \<longleftrightarrow>
     (uint (sample_rate c) = 0 \<or> (4 \<le> uint (sample_rate c) \<and> uint (sample_rate c) \<le> 250)
        \<or> uint (sample_rate c) = 333 \<or> uint (sample_rate c) = 500
        \<or> uint (sample_rate c) = 1000)
     \<and> uint (compass_sample_rate c) \<le> 199"

text \<open>
  The bus \<open>bus'\<close> is the bus \<open>bus\<close> after further events: same environment,
  longer trace.
\<close>

definition extends :: "i2c_bus \<Rightarrow> i2c_bus \<Rightarrow> bool" where
  "extends bus bus' \<longleftrightarrow> (\<exists>evs. bus' = bus\<lparr>trace := trace bus @ evs\<rparr>)"

text \<open>
  The events of a list that come before its first access to the register \<open>r\<close>.
\<close>

definition events_before :: "reg \<Rightarrow> event list \<Rightarrow> event list" where
  "events_before r evs = takeWhile (\<lambda>e. \<not> is_access_to r e) evs"

text \<open>
  The bus \<open>bus'\<close> is \<open>bus\<close> after further events, none of which accesses
  the register \<open>r\<close>.
\<close>

definition quiet_ext :: "reg \<Rightarrow> i2c_bus \<Rightarrow> i2c_bus \<Rightarrow> bool" where
  "quiet_ext r bus bus' \<longleftrightarrow> extends bus bus' \<and> filter (is_access_to r) (issued bus bus') = []"

text \<open>
  The two halves of \<open>mpu9250_reset_and_init\<close>: what it does before it calls
  \<open>compass_init\<close>, and what it does after \<open>compass_init\<close> has succeeded. The
  function is shown below to be their composition around that call.
\<close>

definition reset_head :: "hdr \<Rightarrow> mpu9250_t \<Rightarrow> i2c_bus \<Rightarrow> mpu9250_t \<times> i2c_bus" where
  "reset_head k dev bus =
     (let bus = snd (i2c_acquire bus);
          bus = i2c_write_reg (DEV_ADDR dev) MPU9250_PWR_MGMT_1_REG (MPU9250_PWR_RESET k) bus;
          bus = xtimer_usleep MPU9250_RESET_SLEEP_US bus;
          bus = i2c_write_reg (DEV_ADDR dev) MPU9250_PWR_MGMT_1_REG (MPU9250_PWR_WAKEUP k) bus;
          bus = i2c_release bus;
          (dev, bus) = snd (mpu9250_set_gyro_fsr k dev MPU9250_GYRO_FSR_2000DPS bus);
          (dev, bus) = snd (mpu9250_set_accel_fsr k dev MPU9250_ACCEL_FSR_2G bus);
          (dev, bus) = snd (mpu9250_set_sample_rate k dev (params_sample_rate (params dev)) bus);
          bus = snd (i2c_acquire bus);
          bus = i2c_write_reg (DEV_ADDR dev) MPU9250_INT_ENABLE_REG REG_RESET bus
      in (dev, bus))"

definition reset_tail :: "hdr \<Rightarrow> mpu9250_t \<Rightarrow> i2c_bus \<Rightarrow> int \<times> mpu9250_t \<times> i2c_bus" where
  "reset_tail k dev bus =
     (let bus = i2c_release bus;
          (dev, bus) = snd (mpu9250_set_compass_sample_rate k dev 10 bus);
          bus = snd (i2c_acquire bus);
          bus = i2c_write_reg (DEV_ADDR dev) MPU9250_PWR_MGMT_1_REG (MPU9250_PWR_PLL k) bus
      in case i2c_read_reg (DEV_ADDR dev) MPU9250_PWR_MGMT_2_REG bus of (temp, bus) \<Rightarrow>
        let temp = temp AND NOT (MPU9250_PWR_ACCEL k OR MPU9250_PWR_GYRO k);
            bus = i2c_write_reg (DEV_ADDR dev) MPU9250_PWR_MGMT_2_REG temp bus;
            bus = i2c_release bus;
            bus = xtimer_usleep MPU9250_PWR_CHANGE_SLEEP_US bus
        in (0, dev, bus))"

text \<open>The stored sample rate and compass sample rate after a run of setter calls.\<close>

definition rates_of :: "(mpu9250_t \<times> i2c_bus) option \<Rightarrow> (u16 \<times> u8) option" where
  "rates_of = map_option (\<lambda>(d, b). (sample_rate (conf d), compass_sample_rate (conf d)))"

subsection \<open>Concrete inputs\<close>

text \<open>
  An assignment of the header constants, following the register map of the
  MPU-9250 and of its AK8963 compass. It serves to evaluate the model on
  concrete inputs; no general theorem depends on it.
\<close>

definition regs_h :: hdr where
  "regs_h =
     \<lparr> MPU9250_PWR_RESET = 0x80, MPU9250_PWR_WAKEUP = 0x00, MPU9250_PWR_PLL = 0x01,
       MPU9250_PWR_CYCLE = 0x20, BIT_PWR_MGMT1_SLEEP = 0x40, MPU9250_PWR_ACCEL = 0x38,
       MPU9250_PWR_GYRO = 0x07, BIT_I2C_MST_EN = 0x20, BIT_I2C_BYPASS_EN = 0x02,
       BIT_WAIT_FOR_ES = 0x40, BIT_SLAVE_RW = 0x80, BIT_SLAVE_EN = 0x80,
       BIT_SLV0_DELAY_EN = 0x01, BIT_SLV1_DELAY_EN = 0x02,
       MPU9250_COMP_POWER_DOWN = 0x00, MPU9250_COMP_SINGLE_MEASURE = 0x01,
       MPU9250_COMP_FUSE_ROM = 0x0F, MPU9250_COMP_WHOAMI_ANSWER = 0x48,
       MPU9250_ACCEL_CFG_WOM = 0x09, MPU9250_ACCEL_INTEL_CFG = 0xC0, MPU9250_INT_WOM = 0x40,
       reg_addr = (\<lambda>r. if r = COMPASS_CNTL_REG then 0x0A
                        else if r = COMPASS_DATA_START_REG then 0x03 else 0),
       gyro_fsr_val = (\<lambda>f. case f of MPU9250_GYRO_FSR_250DPS \<Rightarrow> 0
                              | MPU9250_GYRO_FSR_500DPS \<Rightarrow> 1
                              | MPU9250_GYRO_FSR_1000DPS \<Rightarrow> 2
                              | MPU9250_GYRO_FSR_2000DPS \<Rightarrow> 3
                              | GYRO_FSR_other n \<Rightarrow> word_of_int n),
       accel_fsr_val = (\<lambda>f. case f of MPU9250_ACCEL_FSR_2G \<Rightarrow> 0
                              | MPU9250_ACCEL_FSR_4G \<Rightarrow> 1
                              | MPU9250_ACCEL_FSR_8G \<Rightarrow> 2
                              | MPU9250_ACCEL_FSR_16G \<Rightarrow> 3
                              | ACCEL_FSR_other n \<Rightarrow> word_of_int n),
       lpf_val = (\<lambda>f. case f of MPU9250_FILTER_184HZ \<Rightarrow> 1
                              | MPU9250_FILTER_92HZ \<Rightarrow> 2
                              | MPU9250_FILTER_41HZ \<Rightarrow> 3
                              | MPU9250_FILTER_20HZ \<Rightarrow> 4
                              | MPU9250_FILTER_10HZ \<Rightarrow> 5
                              | MPU9250_FILTER_5HZ \<Rightarrow> 6) \<rparr>"

text \<open>
  A bus that can always be acquired and one that never can; every register of
  both reads as 0.
\<close>

definition free_bus :: i2c_bus where
  "free_bus = \<lparr> trace = [], acquirable = (\<lambda>_. True), respond = (\<lambda>_ _ _ _. 0),
                 master_init_fails = False \<rparr>"

definition busy_bus :: i2c_bus where
  "busy_bus = \<lparr> trace = [], acquirable = (\<lambda>_. False), respond = (\<lambda>_ _ _ _. 0),
                 master_init_fails = False \<rparr>"

text \<open>A bus that can always be acquired and whose registers all read as 0xFF.\<close>

definition ones_bus :: i2c_bus where
  "ones_bus = \<lparr> trace = [], acquirable = (\<lambda>_. True), respond = (\<lambda>_ _ _ _. 0xFF),
                 master_init_fails = False \<rparr>"

text \<open>
  A bus that can always be acquired and whose registers read as 0 while fewer
  than 26 events have been issued, and as 0x48 from then on.
\<close>

definition late_bus :: i2c_bus where
  "late_bus = \<lparr> trace = [], acquirable = (\<lambda>_. True),
                 respond = (\<lambda>tr _ _ _. if length tr < 26 then 0 else 0x48),
                 master_init_fails = False \<rparr>"

text \<open>A freshly constructed descriptor, and variants of it.\<close>

definition dev0 :: mpu9250_t where
  "dev0 = \<lparr> params = \<lparr> i2c = 0, addr = 0x68, comp_addr = 0x0C, params_sample_rate = 50 \<rparr>,
             conf = DEFAULT_STATUS \<rparr>"

definition dev_gyro_off :: mpu9250_t where
  "dev_gyro_off = dev0\<lparr>conf := (conf dev0)\<lparr>gyro_pwr := MPU9250_SENSOR_PWR_OFF\<rparr>\<rparr>"

definition dev_bad_fsr :: mpu9250_t where
  "dev_bad_fsr = dev0\<lparr>conf := (conf dev0)\<lparr>gyro_fsr := GYRO_FSR_other 7,
                                            accel_fsr := ACCEL_FSR_other 7\<rparr>\<rparr>"

definition dev_rate :: "u16 \<Rightarrow> mpu9250_t" where
  "dev_rate s = dev0\<lparr>conf := (conf dev0)\<lparr>sample_rate := s\<rparr>\<rparr>"

definition out0 :: mpu9250_results_t where
  "out0 = \<lparr> x_axis = 1, y_axis = 2, z_axis = 3 \<rparr>"

section \<open>Auxiliary facts\<close>

lemmas bus_defs = emit_def i2c_acquire_def i2c_release_def i2c_read_reg_def i2c_read_regs_def
  i2c_write_reg_def xtimer_usleep_def issued_def

lemmas emit_forms = i2c_acquire_def i2c_release_def i2c_read_reg_def i2c_read_regs_def
  i2c_write_reg_def xtimer_usleep_def

lemmas env_defs = regs_h_def free_bus_def busy_bus_def dev0_def DEFAULT_STATUS_def

lemmas setter_defs = mpu9250_set_sample_rate_def mpu9250_set_compass_sample_rate_def
  conf_lpf_def bus_defs Let_def MPU9250_MIN_SAMPLE_RATE_def MPU9250_MAX_SAMPLE_RATE_def
  MPU9250_MIN_COMP_SMPL_RATE_def MPU9250_MAX_COMP_SMPL_RATE_def

subsection \<open>Words and integer division\<close>

lemma uint_of_int_u8: "0 \<le> k \<Longrightarrow> k < 256 \<Longrightarrow> uint (word_of_int k :: u8) = k"
  by (simp add: uint_word_of_int take_bit_int_eq_self)

lemma uint_of_int_u16: "0 \<le> k \<Longrightarrow> k < 65536 \<Longrightarrow> uint (word_of_int k :: u16) = k"
  by (simp add: uint_word_of_int take_bit_int_eq_self)

lemma uint_u8_u16: "uint (ucast (w :: u8) :: u16) = uint w"
  by (simp add: uint_up_ucast is_up)

lemma uint_half: "uint (drop_bit 1 (s :: u16)) = uint s div 2"
  by transfer (simp add: drop_bit_eq_div take_bit_eq_mod)

lemma div_div_bounds:
  fixes r s :: int
  assumes "1 \<le> r" "r \<le> s"
  shows "1 \<le> s div r" and "s div (s div r) < 2 * r" and "r \<le> s div (s div r)"
    and "s div (s div r) \<le> s"
proof -
  define q where "q = s div r"
  have "0 < s div r" using assms by (simp add: pos_imp_zdiv_pos_iff)
  then show q1: "1 \<le> s div r" by simp
  then have qpos: "0 < q" "1 \<le> q" by (simp_all add: q_def)
  have s_eq: "s = r * q + s mod r" by (simp add: q_def)
  have m: "0 \<le> s mod r" "s mod r < r" using assms by simp_all
  have rq: "r \<le> r * q" using mult_left_mono [of 1 q r] qpos assms by simp
  have upper: "s < 2 * (r * q)" using s_eq m rq by linarith
  have below: "(s div q) * q \<le> s"
  proof -
    have "s = (s div q) * q + s mod q" by simp
    moreover have "0 \<le> s mod q" using qpos by simp
    ultimately show ?thesis by linarith
  qed
  show "s div (s div r) < 2 * r"
  proof (rule ccontr)
    assume "\<not> s div (s div r) < 2 * r"
    then have "2 * r \<le> s div q" by (simp add: q_def)
    then have "(2 * r) * q \<le> (s div q) * q" using qpos by (intro mult_right_mono) simp_all
    then have "2 * (r * q) \<le> (s div q) * q" by (simp add: mult.assoc)
    with below upper show False by linarith
  qed
  have "r * q \<le> s" using s_eq m by linarith
  then have "(r * q) div q \<le> s div q" using qpos by (intro zdiv_mono1) simp_all
  then show "r \<le> s div (s div r)" using qpos by (simp add: q_def)
  show "s div (s div r) \<le> s" using assms by (intro int_div_le_self) simp
qed

lemma div_1000_bounds:
  fixes x :: int
  assumes "4 \<le> x" "x \<le> 1000"
  shows "1 \<le> 1000 div x" and "1000 div x \<le> 250"
proof -
  have "0 < 1000 div x" using assms by (simp add: pos_imp_zdiv_pos_iff)
  then show "1 \<le> 1000 div x" by simp
  have "1000 div x \<le> 1000 div 4" using assms by (intro zdiv_mono2) simp_all
  then show "1000 div x \<le> 250" by simp
qed

subsection \<open>Power setters\<close>

lemma accel_power_writes:
  assumes "acquirable bus (trace bus)" "accel_pwr (conf dev) \<noteq> p"
  shows "written_regs (issued bus (snd (snd (mpu9250_set_accel_power k dev p bus)))) =
           (if all_off (conf dev)
               \<or> all_off (conf (fst (snd (mpu9250_set_accel_power k dev p bus))))
            then [MPU9250_PWR_MGMT_1_REG, MPU9250_PWR_MGMT_2_REG]
            else [MPU9250_PWR_MGMT_2_REG])"
  using assms
  by (cases p; cases "accel_pwr (conf dev)")
     (auto simp: mpu9250_set_accel_power_def bus_defs all_off_def Let_def)

lemma compass_power_writes:
  assumes "acquirable bus (trace bus)" "compass_pwr (conf dev) \<noteq> p"
  shows "written_regs (issued bus (snd (snd (mpu9250_set_compass_power k dev p bus)))) =
           (if all_off (conf dev)
               \<or> all_off (conf (fst (snd (mpu9250_set_compass_power k dev p bus))))
            then [MPU9250_PWR_MGMT_1_REG, MPU9250_SLAVE1_DATA_OUT_REG, MPU9250_USER_CTRL_REG]
            else [MPU9250_SLAVE1_DATA_OUT_REG, MPU9250_USER_CTRL_REG])"
  using assms
  by (cases p; cases "compass_pwr (conf dev)")
     (auto simp: mpu9250_set_compass_power_def bus_defs all_off_def Let_def)

lemma gyro_power_writes:
  assumes "acquirable bus (trace bus)" "gyro_pwr (conf dev) \<noteq> p"
  shows "written_regs (issued bus (snd (snd (mpu9250_set_gyro_power k dev p bus)))) =
            [MPU9250_PWR_MGMT_1_REG, MPU9250_PWR_MGMT_2_REG]"
  using assms
  by (cases p; cases "gyro_pwr (conf dev)")
     (auto simp: mpu9250_set_gyro_power_def bus_defs Let_def)

lemma gyro_power_pwr_mgmt_1_value:
  assumes "acquirable bus (trace bus)" "gyro_pwr (conf dev) \<noteq> p"
  shows "filter (is_write_to MPU9250_PWR_MGMT_1_REG)
           (issued bus (snd (snd (mpu9250_set_gyro_power k dev p bus)))) =
         [Write_reg (DEV_ADDR dev) MPU9250_PWR_MGMT_1_REG
            (if p = MPU9250_SENSOR_PWR_ON then MPU9250_PWR_PLL k
             else if accel_pwr (conf dev) = MPU9250_SENSOR_PWR_OFF
                     \<and> compass_pwr (conf dev) = MPU9250_SENSOR_PWR_OFF
                  then BIT_PWR_MGMT1_SLEEP k else MPU9250_PWR_WAKEUP k)]"
  using assms
  by (cases p; cases "gyro_pwr (conf dev)")
     (auto simp: mpu9250_set_gyro_power_def bus_defs Let_def)

lemma accel_power_standby:
  assumes "acquirable bus (trace bus)" "accel_pwr (conf dev) \<noteq> p"
  shows "\<exists>v. filter (is_access_to MPU9250_PWR_MGMT_2_REG)
               (issued bus (snd (snd (mpu9250_set_accel_power k dev p bus)))) =
             [Read_reg (DEV_ADDR dev) MPU9250_PWR_MGMT_2_REG v,
              Write_reg (DEV_ADDR dev) MPU9250_PWR_MGMT_2_REG
                (if p = MPU9250_SENSOR_PWR_ON then v AND NOT (MPU9250_PWR_ACCEL k)
                 else v OR MPU9250_PWR_ACCEL k)]"
  using assms
  by (cases p; cases "accel_pwr (conf dev)")
     (auto simp: mpu9250_set_accel_power_def bus_defs Let_def)

lemma gyro_power_standby:
  assumes "acquirable bus (trace bus)" "gyro_pwr (conf dev) \<noteq> p"
  shows "\<exists>v. filter (is_access_to MPU9250_PWR_MGMT_2_REG)
               (issued bus (snd (snd (mpu9250_set_gyro_power k dev p bus)))) =
             [Read_reg (DEV_ADDR dev) MPU9250_PWR_MGMT_2_REG v,
              Write_reg (DEV_ADDR dev) MPU9250_PWR_MGMT_2_REG
                (if p = MPU9250_SENSOR_PWR_ON then v AND NOT (MPU9250_PWR_GYRO k)
                 else v OR MPU9250_PWR_GYRO k)]"
  using assms
  by (cases p; cases "gyro_pwr (conf dev)")
     (auto simp: mpu9250_set_gyro_power_def bus_defs Let_def)

subsection \<open>A bus that cannot be acquired\<close>

lemma accel_power_busy:
  assumes "\<not> acquirable bus (trace bus)"
  shows "fst (snd (mpu9250_set_accel_power k dev p bus)) = dev \<and>
         (accel_pwr (conf dev) \<noteq> p \<longrightarrow>
            mpu9250_set_accel_power k dev p bus = (-1, dev, emit (Acquire False) bus))"
  using assms by (simp add: mpu9250_set_accel_power_def i2c_acquire_def)

lemma gyro_power_busy:
  assumes "\<not> acquirable bus (trace bus)"
  shows "fst (snd (mpu9250_set_gyro_power k dev p bus)) = dev \<and>
         (gyro_pwr (conf dev) \<noteq> p \<longrightarrow>
            mpu9250_set_gyro_power k dev p bus = (-1, dev, emit (Acquire False) bus))"
  using assms by (simp add: mpu9250_set_gyro_power_def i2c_acquire_def)

lemma compass_power_busy:
  assumes "\<not> acquirable bus (trace bus)"
  shows "fst (snd (mpu9250_set_compass_power k dev p bus)) = dev \<and>
         (compass_pwr (conf dev) \<noteq> p \<longrightarrow>
            mpu9250_set_compass_power k dev p bus = (-1, dev, emit (Acquire False) bus))"
  using assms by (simp add: mpu9250_set_compass_power_def i2c_acquire_def)

lemma gyro_fsr_busy:
  assumes "\<not> acquirable bus (trace bus)"
  shows "fst (snd (mpu9250_set_gyro_fsr k dev gf bus)) = dev \<and>
         (gyro_fsr (conf dev) \<noteq> gf \<and> gf \<in> {MPU9250_GYRO_FSR_250DPS, MPU9250_GYRO_FSR_500DPS,
              MPU9250_GYRO_FSR_1000DPS, MPU9250_GYRO_FSR_2000DPS} \<longrightarrow>
            mpu9250_set_gyro_fsr k dev gf bus = (-1, dev, emit (Acquire False) bus))"
  using assms by (cases gf) (auto simp: mpu9250_set_gyro_fsr_def i2c_acquire_def)

lemma accel_fsr_busy:
  assumes "\<not> acquirable bus (trace bus)"
  shows "fst (snd (mpu9250_set_accel_fsr k dev af bus)) = dev \<and>
         (accel_fsr (conf dev) \<noteq> af \<and> af \<in> {MPU9250_ACCEL_FSR_2G, MPU9250_ACCEL_FSR_4G,
              MPU9250_ACCEL_FSR_8G, MPU9250_ACCEL_FSR_16G} \<longrightarrow>
            mpu9250_set_accel_fsr k dev af bus = (-1, dev, emit (Acquire False) bus))"
  using assms by (cases af) (auto simp: mpu9250_set_accel_fsr_def i2c_acquire_def)

lemma sample_rate_busy:
  assumes "\<not> acquirable bus (trace bus)"
  shows "fst (snd (mpu9250_set_sample_rate k dev rate bus)) = dev \<and>
         (4 \<le> uint rate \<and> uint rate \<le> 1000 \<and> sample_rate (conf dev) \<noteq> rate \<longrightarrow>
            mpu9250_set_sample_rate k dev rate bus = (-1, dev, emit (Acquire False) bus))"
  using assms
  by (auto simp: mpu9250_set_sample_rate_def i2c_acquire_def Let_def
      MPU9250_MIN_SAMPLE_RATE_def MPU9250_MAX_SAMPLE_RATE_def)

lemma compass_sample_rate_busy:
  assumes "\<not> acquirable bus (trace bus)"
  shows "fst (snd (mpu9250_set_compass_sample_rate k dev cr bus)) = dev \<and>
         (1 \<le> uint cr \<and> uint cr \<le> 100 \<and> uint cr \<le> uint (sample_rate (conf dev))
            \<and> compass_sample_rate (conf dev) \<noteq> cr \<longrightarrow>
            mpu9250_set_compass_sample_rate k dev cr bus = (-1, dev, emit (Acquire False) bus))"
  using assms
  by (auto simp: mpu9250_set_compass_sample_rate_def i2c_acquire_def Let_def
      MPU9250_MIN_COMP_SMPL_RATE_def MPU9250_MAX_COMP_SMPL_RATE_def)

lemma read_axes_busy:
  "\<not> acquirable bus (trace bus) \<Longrightarrow> fst (read_axes a r fsr output bus) = -1"
  by (simp add: read_axes_def bus_defs)

subsection \<open>Sample rates and the filter\<close>

lemma lpf_bandwidth_of:
  "lpf_bandwidth (lpf_setting_of h) =
     (if 184 \<le> uint h then 184 else if 92 \<le> uint h then 92 else if 42 \<le> uint h then 41
      else if 20 \<le> uint h then 20 else if 10 \<le> uint h then 10 else 5)"
  by (simp add: lpf_setting_of_def word_le_def)

lemma lpf_mono:
  "h1 \<le> h2 \<Longrightarrow> lpf_bandwidth (lpf_setting_of h1) \<le> lpf_bandwidth (lpf_setting_of h2)"
  by (simp add: lpf_bandwidth_of word_le_def)

lemma lpf_nyquist:
  "10 \<le> uint (s :: u16) \<Longrightarrow> lpf_bandwidth (lpf_setting_of (drop_bit 1 s)) \<le> uint s div 2"
  using uint_half [of s] by (simp add: lpf_bandwidth_of, arith)

lemma lpf_low_rates:
  "uint (s :: u16) < 20 \<Longrightarrow> lpf_setting_of (drop_bit 1 s) = MPU9250_FILTER_5HZ"
  using uint_half [of s] by (simp add: lpf_setting_of_def word_le_def)

lemma sample_rate_rejected:
  "uint rate < 4 \<or> 1000 < uint rate \<Longrightarrow> mpu9250_set_sample_rate k dev rate bus = (-2, dev, bus)"
  by (auto simp: mpu9250_set_sample_rate_def MPU9250_MIN_SAMPLE_RATE_def
      MPU9250_MAX_SAMPLE_RATE_def)

lemma sample_rate_unchanged:
  "4 \<le> uint rate \<Longrightarrow> uint rate \<le> 1000 \<Longrightarrow> sample_rate (conf dev) = rate \<Longrightarrow>
     mpu9250_set_sample_rate k dev rate bus = (0, dev, bus)"
  by (auto simp: mpu9250_set_sample_rate_def MPU9250_MIN_SAMPLE_RATE_def
      MPU9250_MAX_SAMPLE_RATE_def)

lemma sample_rate_stored:
  assumes "4 \<le> uint rate" "uint rate \<le> 1000" "sample_rate (conf dev) \<noteq> rate"
    "acquirable bus (trace bus)"
  shows "fst (mpu9250_set_sample_rate k dev rate bus) = 0"
    and "uint (sample_rate (conf (fst (snd (mpu9250_set_sample_rate k dev rate bus)))))
           = 1000 div (1000 div uint rate)"
    and "filter (is_write_to MPU9250_RATE_DIV_REG)
           (issued bus (snd (snd (mpu9250_set_sample_rate k dev rate bus)))) =
         [Write_reg (DEV_ADDR dev) MPU9250_RATE_DIV_REG (word_of_int (1000 div uint rate - 1))]"
    and "filter (is_write_to MPU9250_CONFIG)
           (issued bus (snd (snd (mpu9250_set_sample_rate k dev rate bus)))) =
         [Write_reg (DEV_ADDR dev) MPU9250_CONFIG
            (lpf_val k (lpf_setting_of (drop_bit 1
               (sample_rate (conf (fst (snd (mpu9250_set_sample_rate k dev rate bus))))))))]"
proof -
  note b = div_1000_bounds [OF assms(1,2)]
  have d: "uint (word_of_int (1000 div uint rate - 1) :: u8) = 1000 div uint rate - 1"
    using b by (intro uint_of_int_u8) simp_all
  have e: "0 \<le> 1000 div (1000 div uint rate)" "1000 div (1000 div uint rate) < 65536"
    using b int_div_le_self [of 1000 "1000 div uint rate"]
    by (simp_all add: pos_imp_zdiv_nonneg_iff)
  show "fst (mpu9250_set_sample_rate k dev rate bus) = 0"
    using assms
    by (simp add: mpu9250_set_sample_rate_def i2c_acquire_def Let_def
        MPU9250_MIN_SAMPLE_RATE_def MPU9250_MAX_SAMPLE_RATE_def split: prod.splits)
  show "uint (sample_rate (conf (fst (snd (mpu9250_set_sample_rate k dev rate bus)))))
           = 1000 div (1000 div uint rate)"
    using assms uint_of_int_u16 [OF e]
    by (simp add: mpu9250_set_sample_rate_def i2c_acquire_def Let_def uint_u8_u16 d
        MPU9250_MIN_SAMPLE_RATE_def MPU9250_MAX_SAMPLE_RATE_def split: prod.splits
        del: of_int_diff)
  show "filter (is_write_to MPU9250_RATE_DIV_REG)
           (issued bus (snd (snd (mpu9250_set_sample_rate k dev rate bus)))) =
         [Write_reg (DEV_ADDR dev) MPU9250_RATE_DIV_REG (word_of_int (1000 div uint rate - 1))]"
    using assms
    by (simp add: mpu9250_set_sample_rate_def conf_lpf_def bus_defs Let_def
        MPU9250_MIN_SAMPLE_RATE_def MPU9250_MAX_SAMPLE_RATE_def)
  show "filter (is_write_to MPU9250_CONFIG)
           (issued bus (snd (snd (mpu9250_set_sample_rate k dev rate bus)))) =
         [Write_reg (DEV_ADDR dev) MPU9250_CONFIG
            (lpf_val k (lpf_setting_of (drop_bit 1
               (sample_rate (conf (fst (snd (mpu9250_set_sample_rate k dev rate bus))))))))]"
    using assms
    by (simp add: mpu9250_set_sample_rate_def conf_lpf_def bus_defs Let_def
        MPU9250_MIN_SAMPLE_RATE_def MPU9250_MAX_SAMPLE_RATE_def)
qed

lemma compass_rate_rejected:
  "uint rate < 1 \<or> 100 < uint rate \<or> uint (sample_rate (conf dev)) < uint rate \<Longrightarrow>
     mpu9250_set_compass_sample_rate k dev rate bus = (-2, dev, bus)"
  by (auto simp: mpu9250_set_compass_sample_rate_def MPU9250_MIN_COMP_SMPL_RATE_def
      MPU9250_MAX_COMP_SMPL_RATE_def)

lemma compass_rate_unchanged:
  "1 \<le> uint rate \<Longrightarrow> uint rate \<le> 100 \<Longrightarrow> uint rate \<le> uint (sample_rate (conf dev)) \<Longrightarrow>
     compass_sample_rate (conf dev) = rate \<Longrightarrow>
     mpu9250_set_compass_sample_rate k dev rate bus = (0, dev, bus)"
  by (auto simp: mpu9250_set_compass_sample_rate_def MPU9250_MIN_COMP_SMPL_RATE_def
      MPU9250_MAX_COMP_SMPL_RATE_def)

lemma compass_rate_stored:
  assumes "1 \<le> uint rate" "uint rate \<le> 100" "uint rate \<le> uint (sample_rate (conf dev))"
    "compass_sample_rate (conf dev) \<noteq> rate" "acquirable bus (trace bus)"
    "uint (sample_rate (conf dev)) div uint rate \<le> 256"
  shows "fst (mpu9250_set_compass_sample_rate k dev rate bus) = 0"
    and "uint (compass_sample_rate
                 (conf (fst (snd (mpu9250_set_compass_sample_rate k dev rate bus)))))
           = uint (sample_rate (conf dev)) div (uint (sample_rate (conf dev)) div uint rate)"
    and "filter is_write (issued bus (snd (snd (mpu9250_set_compass_sample_rate k dev rate bus))))
           = [Write_reg (DEV_ADDR dev) MPU9250_SLAVE4_CTRL_REG
                (word_of_int (uint (sample_rate (conf dev)) div uint rate - 1))]"
proof -
  let ?s = "uint (sample_rate (conf dev))" and ?r = "uint rate"
  note b = div_div_bounds [OF assms(1,3)]
  have d: "uint (word_of_int (?s div ?r - 1) :: u8) = ?s div ?r - 1"
    using b(1) assms(6) by (intro uint_of_int_u8) simp_all
  have e: "0 \<le> ?s div (?s div ?r)" "?s div (?s div ?r) < 256"
    using b assms(1,2) by simp_all
  show "fst (mpu9250_set_compass_sample_rate k dev rate bus) = 0"
    using assms(1-5)
    by (simp add: mpu9250_set_compass_sample_rate_def i2c_acquire_def Let_def
        MPU9250_MIN_COMP_SMPL_RATE_def MPU9250_MAX_COMP_SMPL_RATE_def split: prod.splits)
  show "uint (compass_sample_rate
                 (conf (fst (snd (mpu9250_set_compass_sample_rate k dev rate bus)))))
           = ?s div (?s div ?r)"
    using assms(1-5) uint_of_int_u8 [OF e]
    by (simp add: mpu9250_set_compass_sample_rate_def i2c_acquire_def Let_def uint_u8_u16 d
        MPU9250_MIN_COMP_SMPL_RATE_def MPU9250_MAX_COMP_SMPL_RATE_def split: prod.splits
        del: of_int_diff)
  show "filter is_write (issued bus (snd (snd (mpu9250_set_compass_sample_rate k dev rate bus))))
           = [Write_reg (DEV_ADDR dev) MPU9250_SLAVE4_CTRL_REG (word_of_int (?s div ?r - 1))]"
    using assms(1-5)
    by (simp add: mpu9250_set_compass_sample_rate_def bus_defs Let_def
        MPU9250_MIN_COMP_SMPL_RATE_def MPU9250_MAX_COMP_SMPL_RATE_def)
qed

subsection \<open>Wake on motion\<close>

lemma wom_bits:
  fixes v a b :: u8
  shows "v AND NOT (a OR NOT b) = v AND b AND NOT a"
  by (simp add: bit_eq_iff bit_simps) blast

lemma wom_bits_differ:
  fixes v a b :: u8
  assumes "v AND b \<noteq> b"
  shows "v AND NOT (a OR NOT b) \<noteq> (v AND NOT a) OR b"
proof
  assume e: "v AND NOT (a OR NOT b) = (v AND NOT a) OR b"
  have "v AND b = b"
  proof (rule bit_eqI)
    fix n
    assume "possible_bit TYPE(u8) n"
    from e have "bit (v AND NOT (a OR NOT b)) n = bit ((v AND NOT a) OR b) n" by simp
    then show "bit (v AND b) n = bit b n"
      by (auto simp: bit_simps)
  qed
  with assms show False by simp
qed

subsection \<open>Bring-up with a compass that does not identify itself\<close>

lemma extends_refl: "extends bus bus"
  unfolding extends_def by (rule exI [of _ "[]"]) simp

lemma extends_emit: "extends bus b1 \<Longrightarrow> extends bus (emit e b1)"
  unfolding extends_def emit_def
proof (elim exE)
  fix evs assume "b1 = bus\<lparr>trace := trace bus @ evs\<rparr>"
  then have "b1\<lparr>trace := trace b1 @ [e]\<rparr> = bus\<lparr>trace := trace bus @ (evs @ [e])\<rparr>" by simp
  then show "\<exists>evs. b1\<lparr>trace := trace b1 @ [e]\<rparr> = bus\<lparr>trace := trace bus @ evs\<rparr>" by blast
qed

lemma extends_frame:
  assumes "extends bus bus'"
  shows "respond bus' = respond bus" and "acquirable bus' = acquirable bus"
    and "trace bus' = trace bus @ issued bus bus'"
  using assms by (auto simp: extends_def issued_def)

lemma extends_trans:
  assumes "extends bus b1" "extends b1 b2"
  shows "extends bus b2" and "issued bus b2 = issued bus b1 @ issued b1 b2"
proof -
  from assms obtain e1 e2 where 1: "b1 = bus\<lparr>trace := trace bus @ e1\<rparr>"
    and 2: "b2 = b1\<lparr>trace := trace b1 @ e2\<rparr>" by (auto simp: extends_def)
  then have "b2 = bus\<lparr>trace := trace bus @ (e1 @ e2)\<rparr>" by simp
  then show "extends bus b2" unfolding extends_def by blast
  show "issued bus b2 = issued bus b1 @ issued b1 b2" using 1 2 by (simp add: issued_def)
qed

lemma gyro_fsr_extends:
  "extends bus (snd (snd (mpu9250_set_gyro_fsr k dev f bus)))"
  "params (fst (snd (mpu9250_set_gyro_fsr k dev f bus))) = params dev"
  by (auto simp: mpu9250_set_gyro_fsr_def emit_forms Let_def
      intro!: extends_emit extends_refl split: mpu9250_gyro_ranges_t.splits)

lemma accel_fsr_extends:
  "extends bus (snd (snd (mpu9250_set_accel_fsr k dev f bus)))"
  "params (fst (snd (mpu9250_set_accel_fsr k dev f bus))) = params dev"
  by (auto simp: mpu9250_set_accel_fsr_def emit_forms Let_def
      intro!: extends_emit extends_refl split: mpu9250_accel_ranges_t.splits)

lemma sample_rate_extends:
  "extends bus (snd (snd (mpu9250_set_sample_rate k dev r bus)))"
  "params (fst (snd (mpu9250_set_sample_rate k dev r bus))) = params dev"
  by (auto simp: mpu9250_set_sample_rate_def conf_lpf_def emit_forms Let_def
      intro!: extends_emit extends_refl)

lemma gyro_fsr_quiet:
  "filter (is_access_to COMPASS_WHOAMI_REG)
     (issued bus (snd (snd (mpu9250_set_gyro_fsr k dev f bus)))) = []"
  by (auto simp: mpu9250_set_gyro_fsr_def bus_defs Let_def split: mpu9250_gyro_ranges_t.splits)

lemma accel_fsr_quiet:
  "filter (is_access_to COMPASS_WHOAMI_REG)
     (issued bus (snd (snd (mpu9250_set_accel_fsr k dev f bus)))) = []"
  by (auto simp: mpu9250_set_accel_fsr_def bus_defs Let_def split: mpu9250_accel_ranges_t.splits)

lemma sample_rate_quiet:
  "filter (is_access_to COMPASS_WHOAMI_REG)
     (issued bus (snd (snd (mpu9250_set_sample_rate k dev r bus)))) = []"
  by (auto simp: mpu9250_set_sample_rate_def conf_lpf_def bus_defs Let_def)

lemma init_master_failure:
  "master_init_fails bus \<Longrightarrow> fst (mpu9250_init k dev p bus) = -1"
  by (simp add: mpu9250_init_def i2c_init_master_def Let_def)

lemma reset_and_init_parts:
  "mpu9250_reset_and_init k dev bus =
     (case reset_head k dev bus of (dev, bus) \<Rightarrow>
        case compass_init k dev bus of (rc, dev, bus) \<Rightarrow>
          if rc \<noteq> 0 then (-2, dev, i2c_release bus) else reset_tail k dev bus)"
  by (simp add: mpu9250_reset_and_init_def reset_head_def reset_tail_def Let_def case_prod_beta)

lemma events_before_quiet:
  "filter (is_access_to r) xs = [] \<Longrightarrow> events_before r (xs @ ys) = xs @ events_before r ys"
  by (simp add: events_before_def filter_empty_conv)

lemma events_before_stop:
  assumes "filter (is_access_to r) ys \<noteq> []"
  shows "events_before r (ys @ zs) = events_before r ys"
proof -
  from assms obtain e where "e \<in> set ys" "is_access_to r e"
    by (auto simp: filter_empty_conv)
  then show ?thesis unfolding events_before_def by (intro takeWhile_append1) simp_all
qed

lemma quiet_ext_refl: "quiet_ext r bus bus"
  by (simp add: quiet_ext_def extends_refl issued_def)

lemma quiet_ext_trans:
  assumes "quiet_ext r a b" "quiet_ext r b c"
  shows "quiet_ext r a c"
  using assms extends_trans [of a b c] by (simp add: quiet_ext_def)

lemma quiet_ext_emit:
  assumes "quiet_ext r bus b1" "\<not> is_access_to r e"
  shows "quiet_ext r bus (emit e b1)"
proof -
  have "quiet_ext r b1 (emit e b1)"
    using assms(2) extends_emit [OF extends_refl, of b1 e]
    by (simp add: quiet_ext_def issued_def emit_def)
  with assms(1) show ?thesis by (rule quiet_ext_trans)
qed

lemma compass_rate_extends:
  "extends bus (snd (snd (mpu9250_set_compass_sample_rate k dev r bus)))"
  "params (fst (snd (mpu9250_set_compass_sample_rate k dev r bus))) = params dev"
  by (auto simp: mpu9250_set_compass_sample_rate_def emit_forms Let_def
      intro!: extends_emit extends_refl)

lemma compass_rate_quiet:
  "filter (is_access_to COMPASS_WHOAMI_REG)
     (issued bus (snd (snd (mpu9250_set_compass_sample_rate k dev r bus)))) = []"
  by (auto simp: mpu9250_set_compass_sample_rate_def bus_defs Let_def)

lemma setters_through:
  assumes "quiet_ext COMPASS_WHOAMI_REG bus b1"
  shows "quiet_ext COMPASS_WHOAMI_REG bus (snd (snd (mpu9250_set_gyro_fsr k dev gf b1)))"
    and "quiet_ext COMPASS_WHOAMI_REG bus (snd (snd (mpu9250_set_accel_fsr k dev af b1)))"
    and "quiet_ext COMPASS_WHOAMI_REG bus (snd (snd (mpu9250_set_sample_rate k dev sr b1)))"
    and "quiet_ext COMPASS_WHOAMI_REG bus
           (snd (snd (mpu9250_set_compass_sample_rate k dev cr b1)))"
  by (rule quiet_ext_trans [OF assms],
      simp add: quiet_ext_def gyro_fsr_extends gyro_fsr_quiet accel_fsr_extends accel_fsr_quiet
        sample_rate_extends sample_rate_quiet compass_rate_extends compass_rate_quiet)+

lemma reset_head_quiet:
  "quiet_ext COMPASS_WHOAMI_REG bus (snd (reset_head k dev bus))"
  "params (fst (reset_head k dev bus)) = params dev"
  by (auto simp: reset_head_def Let_def case_prod_beta emit_forms gyro_fsr_extends
        accel_fsr_extends sample_rate_extends
      intro!: quiet_ext_emit setters_through quiet_ext_refl)

lemma reset_tail_quiet:
  "quiet_ext COMPASS_WHOAMI_REG bus (snd (snd (reset_tail k dev bus)))"
  by (auto simp: reset_tail_def Let_def case_prod_beta emit_forms
      intro!: quiet_ext_emit setters_through quiet_ext_refl)

lemma compass_init_read:
  "extends bus (snd (snd (compass_init k dev bus)))"
  "filter (is_access_to COMPASS_WHOAMI_REG) (issued bus (snd (snd (compass_init k dev bus)))) =
     [Read_reg (DEV_COMP_ADDR dev) COMPASS_WHOAMI_REG
        (respond bus (trace (conf_bypass k dev 1 bus)) (DEV_COMP_ADDR dev) COMPASS_WHOAMI_REG 0)]"
  "trace bus @ events_before COMPASS_WHOAMI_REG (issued bus (snd (snd (compass_init k dev bus))))
     = trace (conf_bypass k dev 1 bus)"
  "respond bus (trace (conf_bypass k dev 1 bus)) (DEV_COMP_ADDR dev) COMPASS_WHOAMI_REG 0
     \<noteq> MPU9250_COMP_WHOAMI_ANSWER k \<Longrightarrow> fst (compass_init k dev bus) = -1"
proof -
  show "extends bus (snd (snd (compass_init k dev bus)))"
    by (auto simp: compass_init_def conf_bypass_def emit_forms Let_def
        intro!: extends_emit extends_refl)
  show "filter (is_access_to COMPASS_WHOAMI_REG)
          (issued bus (snd (snd (compass_init k dev bus)))) =
     [Read_reg (DEV_COMP_ADDR dev) COMPASS_WHOAMI_REG
        (respond bus (trace (conf_bypass k dev 1 bus)) (DEV_COMP_ADDR dev) COMPASS_WHOAMI_REG 0)]"
    by (simp add: compass_init_def conf_bypass_def bus_defs Let_def)
  show "trace bus @ events_before COMPASS_WHOAMI_REG
          (issued bus (snd (snd (compass_init k dev bus))))
     = trace (conf_bypass k dev 1 bus)"
    by (simp add: compass_init_def conf_bypass_def bus_defs Let_def events_before_def)
  show "respond bus (trace (conf_bypass k dev 1 bus)) (DEV_COMP_ADDR dev) COMPASS_WHOAMI_REG 0
     \<noteq> MPU9250_COMP_WHOAMI_ANSWER k \<Longrightarrow> fst (compass_init k dev bus) = -1"
    by (simp add: compass_init_def conf_bypass_def bus_defs Let_def)
qed


lemma reset_and_init_read:
  shows "filter (is_access_to COMPASS_WHOAMI_REG)
           (issued bus (snd (snd (mpu9250_reset_and_init k dev bus)))) =
         [Read_reg (DEV_COMP_ADDR dev) COMPASS_WHOAMI_REG
            (respond bus
               (trace bus @ events_before COMPASS_WHOAMI_REG
                  (issued bus (snd (snd (mpu9250_reset_and_init k dev bus)))))
               (DEV_COMP_ADDR dev) COMPASS_WHOAMI_REG 0)]"
    and "respond bus
           (trace bus @ events_before COMPASS_WHOAMI_REG
              (issued bus (snd (snd (mpu9250_reset_and_init k dev bus)))))
           (DEV_COMP_ADDR dev) COMPASS_WHOAMI_REG 0 \<noteq> MPU9250_COMP_WHOAMI_ANSWER k
         \<Longrightarrow> fst (mpu9250_reset_and_init k dev bus) = -2"
proof -
  define d3 where "d3 = fst (reset_head k dev bus)"
  define b5 where "b5 = snd (reset_head k dev bus)"
  define rc where "rc = fst (compass_init k d3 b5)"
  define d4 where "d4 = fst (snd (compass_init k d3 b5))"
  define b6 where "b6 = snd (snd (compass_init k d3 b5))"
  define bF where "bF = (if rc \<noteq> 0 then i2c_release b6 else snd (snd (reset_tail k d4 b6)))"
  define w where
    "w = respond b5 (trace (conf_bypass k d3 1 b5)) (DEV_COMP_ADDR d3) COMPASS_WHOAMI_REG 0"
  have res: "mpu9250_reset_and_init k dev bus =
      (if rc \<noteq> 0 then (-2, d4, i2c_release b6) else reset_tail k d4 b6)"
    by (simp add: reset_and_init_parts case_prod_beta d3_def b5_def rc_def d4_def b6_def)
  have bus_res: "snd (snd (mpu9250_reset_and_init k dev bus)) = bF"
    by (simp add: res bF_def)
  have q5: "quiet_ext COMPASS_WHOAMI_REG bus b5" and p3: "params d3 = params dev"
    by (simp_all add: b5_def d3_def reset_head_quiet)
  have e6: "extends b5 b6" by (simp add: b6_def compass_init_read(1))
  have q7: "quiet_ext COMPASS_WHOAMI_REG b6 bF"
    by (auto simp: bF_def reset_tail_quiet i2c_release_def intro!: quiet_ext_emit quiet_ext_refl)
  have f6: "filter (is_access_to COMPASS_WHOAMI_REG) (issued b5 b6) =
      [Read_reg (DEV_COMP_ADDR dev) COMPASS_WHOAMI_REG w]"
    using compass_init_read(2) [of b5 k d3] by (simp add: b6_def w_def p3)
  have h6: "trace b5 @ events_before COMPASS_WHOAMI_REG (issued b5 b6)
      = trace (conf_bypass k d3 1 b5)"
    using compass_init_read(3) [of b5 k d3] by (simp add: b6_def)
  from q5 have e5: "extends bus b5"
    and qq5: "filter (is_access_to COMPASS_WHOAMI_REG) (issued bus b5) = []"
    by (simp_all add: quiet_ext_def)
  from q7 have e7: "extends b6 bF"
    and qq7: "filter (is_access_to COMPASS_WHOAMI_REG) (issued b6 bF) = []"
    by (simp_all add: quiet_ext_def)
  note e56 = extends_trans [OF e5 e6]
  note e57 = extends_trans [OF e56(1) e7]
  have iss: "issued bus bF = issued bus b5 @ (issued b5 b6 @ issued b6 bF)"
    using e57(2) e56(2) by simp
  have filt: "filter (is_access_to COMPASS_WHOAMI_REG) (issued bus bF) =
      [Read_reg (DEV_COMP_ADDR dev) COMPASS_WHOAMI_REG w]"
    by (simp add: iss qq5 f6 qq7)
  have "filter (is_access_to COMPASS_WHOAMI_REG) (issued b5 b6) \<noteq> []" by (simp add: f6)
  then have eb: "events_before COMPASS_WHOAMI_REG (issued bus bF) =
      issued bus b5 @ events_before COMPASS_WHOAMI_REG (issued b5 b6)"
    by (simp add: iss events_before_quiet [OF qq5] events_before_stop)
  have tr5: "trace b5 = trace bus @ issued bus b5" by (rule extends_frame(3) [OF e5])
  have hist: "trace bus @ events_before COMPASS_WHOAMI_REG (issued bus bF)
      = trace (conf_bypass k d3 1 b5)"
    using eb tr5 h6 by simp
  have rsp: "respond b5 = respond bus" by (rule extends_frame(1) [OF e5])
  have w_eq: "respond bus (trace bus @ events_before COMPASS_WHOAMI_REG (issued bus bF))
      (DEV_COMP_ADDR dev) COMPASS_WHOAMI_REG 0 = w"
    by (simp add: hist w_def rsp p3)
  show "filter (is_access_to COMPASS_WHOAMI_REG)
           (issued bus (snd (snd (mpu9250_reset_and_init k dev bus)))) =
         [Read_reg (DEV_COMP_ADDR dev) COMPASS_WHOAMI_REG
            (respond bus
               (trace bus @ events_before COMPASS_WHOAMI_REG
                  (issued bus (snd (snd (mpu9250_reset_and_init k dev bus)))))
               (DEV_COMP_ADDR dev) COMPASS_WHOAMI_REG 0)]"
    unfolding bus_res w_eq by (rule filt)
  assume "respond bus
           (trace bus @ events_before COMPASS_WHOAMI_REG
              (issued bus (snd (snd (mpu9250_reset_and_init k dev bus)))))
           (DEV_COMP_ADDR dev) COMPASS_WHOAMI_REG 0 \<noteq> MPU9250_COMP_WHOAMI_ANSWER k"
  then have "w \<noteq> MPU9250_COMP_WHOAMI_ANSWER k" unfolding bus_res w_eq .
  then have "rc = -1" using compass_init_read(4) [of b5 k d3] by (simp add: rc_def w_def)
  then show "fst (mpu9250_reset_and_init k dev bus) = -2" by (simp add: res)
qed

lemma init_is_reset:
  "\<not> master_init_fails bus \<Longrightarrow>
     mpu9250_init k dev p bus =
       mpu9250_reset_and_init k (dev\<lparr>params := p, conf := DEFAULT_STATUS\<rparr>) bus"
  by (simp add: mpu9250_init_def i2c_init_master_def Let_def)

lemma init_read:
  assumes "\<not> master_init_fails bus"
  shows "filter (is_access_to COMPASS_WHOAMI_REG)
           (issued bus (snd (snd (mpu9250_init k dev p bus)))) =
         [Read_reg (comp_addr p) COMPASS_WHOAMI_REG
            (respond bus
               (trace bus @ events_before COMPASS_WHOAMI_REG
                  (issued bus (snd (snd (mpu9250_init k dev p bus)))))
               (comp_addr p) COMPASS_WHOAMI_REG 0)]"
    and "respond bus
           (trace bus @ events_before COMPASS_WHOAMI_REG
              (issued bus (snd (snd (mpu9250_init k dev p bus)))))
           (comp_addr p) COMPASS_WHOAMI_REG 0 \<noteq> MPU9250_COMP_WHOAMI_ANSWER k
         \<Longrightarrow> fst (mpu9250_init k dev p bus) = -2"
  using reset_and_init_read [of bus k "dev\<lparr>params := p, conf := DEFAULT_STATUS\<rparr>"]
  unfolding init_is_reset [OF assms] by simp_all

lemmas init_defs = mpu9250_init_def i2c_init_master_def mpu9250_reset_and_init_def
  mpu9250_set_gyro_fsr_def mpu9250_set_accel_fsr_def compass_init_def conf_bypass_def
  events_before_def REG_RESET_def

subsection \<open>The stored rates along sequences of setter calls\<close>

lemma power_keeps_rates:
  "sample_rate (conf (fst (snd (mpu9250_set_accel_power k dev p bus)))) = sample_rate (conf dev)"
  "compass_sample_rate (conf (fst (snd (mpu9250_set_accel_power k dev p bus))))
     = compass_sample_rate (conf dev)"
  "sample_rate (conf (fst (snd (mpu9250_set_gyro_power k dev p bus)))) = sample_rate (conf dev)"
  "compass_sample_rate (conf (fst (snd (mpu9250_set_gyro_power k dev p bus))))
     = compass_sample_rate (conf dev)"
  "sample_rate (conf (fst (snd (mpu9250_set_compass_power k dev p bus)))) = sample_rate (conf dev)"
  "compass_sample_rate (conf (fst (snd (mpu9250_set_compass_power k dev p bus))))
     = compass_sample_rate (conf dev)"
  by (simp_all add: mpu9250_set_accel_power_def mpu9250_set_gyro_power_def
      mpu9250_set_compass_power_def emit_forms Let_def)

lemma fsr_keeps_rates:
  "sample_rate (conf (fst (snd (mpu9250_set_gyro_fsr k dev gf bus)))) = sample_rate (conf dev)"
  "compass_sample_rate (conf (fst (snd (mpu9250_set_gyro_fsr k dev gf bus))))
     = compass_sample_rate (conf dev)"
  "sample_rate (conf (fst (snd (mpu9250_set_accel_fsr k dev af bus)))) = sample_rate (conf dev)"
  "compass_sample_rate (conf (fst (snd (mpu9250_set_accel_fsr k dev af bus))))
     = compass_sample_rate (conf dev)"
  by (simp_all add: mpu9250_set_gyro_fsr_def mpu9250_set_accel_fsr_def emit_forms Let_def
      split: mpu9250_gyro_ranges_t.splits mpu9250_accel_ranges_t.splits)

lemma sample_rate_keeps_compass_rate:
  "compass_sample_rate (conf (fst (snd (mpu9250_set_sample_rate k dev rate bus))))
     = compass_sample_rate (conf dev)"
  by (simp add: mpu9250_set_sample_rate_def emit_forms Let_def)

lemma compass_rate_keeps_sample_rate:
  "sample_rate (conf (fst (snd (mpu9250_set_compass_sample_rate k dev rate bus))))
     = sample_rate (conf dev)"
  by (simp add: mpu9250_set_compass_sample_rate_def emit_forms Let_def)

lemma div_1000_values:
  fixes d :: int
  assumes "1 \<le> d" "d \<le> 250"
  shows "(4 \<le> 1000 div d \<and> 1000 div d \<le> 250) \<or> 1000 div d = 333 \<or> 1000 div d = 500
           \<or> 1000 div d = 1000"
proof -
  consider "d = 1" | "d = 2" | "d = 3" | "4 \<le> d" using assms by linarith
  then show ?thesis
  proof cases
    case 4
    have "1000 div d \<le> 1000 div 4" using 4 by (intro zdiv_mono2) simp_all
    moreover have "1000 div 250 \<le> 1000 div d" using assms 4 by (intro zdiv_mono2) simp_all
    ultimately show ?thesis by simp
  qed simp_all
qed

lemma sample_rate_inv:
  assumes "rates_inv (conf dev)" "fst (mpu9250_set_sample_rate k dev rate bus) = 0"
  shows "rates_inv (conf (fst (snd (mpu9250_set_sample_rate k dev rate bus))))"
proof -
  have "4 \<le> uint rate \<and> uint rate \<le> 1000"
  proof (rule ccontr)
    assume "\<not> (4 \<le> uint rate \<and> uint rate \<le> 1000)"
    then have "uint rate < 4 \<or> 1000 < uint rate" by linarith
    from sample_rate_rejected [OF this, of k dev bus] assms(2) show False by simp
  qed
  then have range: "4 \<le> uint rate" "uint rate \<le> 1000" by simp_all
  show ?thesis
  proof (cases "sample_rate (conf dev) = rate")
    case True
    then show ?thesis using assms(1) range by (simp add: sample_rate_unchanged)
  next
    case False
    have acq: "acquirable bus (trace bus)"
    proof (rule ccontr)
      assume n: "\<not> acquirable bus (trace bus)"
      from sample_rate_busy [OF n, of k dev rate] range False
      have "mpu9250_set_sample_rate k dev rate bus = (-1, dev, emit (Acquire False) bus)"
        by blast
      with assms(2) show False by simp
    qed
    note st = sample_rate_stored(2) [OF range False acq, of k]
    note v = div_1000_values [OF div_1000_bounds [OF range]]
    show ?thesis
      using assms(1) v unfolding rates_inv_def st sample_rate_keeps_compass_rate by blast
  qed
qed

lemma compass_rate_formula:
  assumes "1 \<le> uint rate" "uint rate \<le> 100" "uint rate \<le> uint (sample_rate (conf dev))"
    "compass_sample_rate (conf dev) \<noteq> rate" "acquirable bus (trace bus)"
  shows "compass_sample_rate (conf (fst (snd (mpu9250_set_compass_sample_rate k dev rate bus))))
           = word_of_int (uint (sample_rate (conf dev))
               div (uint (word_of_int (uint (sample_rate (conf dev)) div uint rate - 1) :: u8) + 1))"
  using assms
  by (simp add: mpu9250_set_compass_sample_rate_def i2c_acquire_def Let_def uint_u8_u16
      MPU9250_MIN_COMP_SMPL_RATE_def MPU9250_MAX_COMP_SMPL_RATE_def split: prod.splits
      del: of_int_diff)

lemma wrapped_divider_values:
  fixes s r :: int
  assumes "s = 333 \<or> s = 500 \<or> s = 1000" "r = 1 \<or> r = 2 \<or> r = 3" "256 < s div r"
  shows "1 \<le> uint (word_of_int (s div (uint (word_of_int (s div r - 1) :: u8) + 1)) :: u8)"
    and "uint (word_of_int (s div (uint (word_of_int (s div r - 1) :: u8) + 1)) :: u8) \<le> 199"
    and "uint (word_of_int (s div (uint (word_of_int (s div r - 1) :: u8) + 1)) :: u8) \<le> s"
  using assms by auto

lemma compass_rate_inv:
  assumes "rates_inv (conf dev)" "fst (mpu9250_set_compass_sample_rate k dev rate bus) = 0"
  shows "rates_inv (conf (fst (snd (mpu9250_set_compass_sample_rate k dev rate bus))))"
    and "1 \<le> uint (compass_sample_rate
                       (conf (fst (snd (mpu9250_set_compass_sample_rate k dev rate bus)))))"
    and "uint (compass_sample_rate
                 (conf (fst (snd (mpu9250_set_compass_sample_rate k dev rate bus)))))
           \<le> uint (sample_rate
                 (conf (fst (snd (mpu9250_set_compass_sample_rate k dev rate bus)))))"
proof -
  let ?s = "uint (sample_rate (conf dev))" and ?r = "uint rate"
  let ?c' = "uint (compass_sample_rate
                 (conf (fst (snd (mpu9250_set_compass_sample_rate k dev rate bus)))))"
  have "1 \<le> ?r \<and> ?r \<le> 100 \<and> ?r \<le> ?s"
  proof (rule ccontr)
    assume "\<not> (1 \<le> ?r \<and> ?r \<le> 100 \<and> ?r \<le> ?s)"
    then have "?r < 1 \<or> 100 < ?r \<or> ?s < ?r" by linarith
    from compass_rate_rejected [OF this, of k bus] assms(2) show False by simp
  qed
  then have range: "1 \<le> ?r" "?r \<le> 100" "?r \<le> ?s" by simp_all
  have "1 \<le> ?c' \<and> ?c' \<le> 199 \<and> ?c' \<le> ?s"
  proof (cases "compass_sample_rate (conf dev) = rate")
    case True
    then show ?thesis using range by (simp add: compass_rate_unchanged)
  next
    case False
    have acq: "acquirable bus (trace bus)"
    proof (rule ccontr)
      assume n: "\<not> acquirable bus (trace bus)"
      from compass_sample_rate_busy [OF n, of k dev rate] range False
      have "mpu9250_set_compass_sample_rate k dev rate bus = (-1, dev, emit (Acquire False) bus)"
        by blast
      with assms(2) show False by simp
    qed
    show ?thesis
    proof (cases "?s div ?r \<le> 256")
      case True
      note st = compass_rate_stored(2) [OF range False acq True, of k]
      note b = div_div_bounds [OF range(1,3)]
      show ?thesis unfolding st using b range by linarith
    next
      case wrap: False
      then have big: "256 < ?s div ?r" by simp
      have "?s div ?r \<le> ?s" using range by (intro int_div_le_self) simp
      with big have "256 < ?s" by linarith
      with assms(1) have s: "?s = 333 \<or> ?s = 500 \<or> ?s = 1000"
        by (auto simp: rates_inv_def)
      have "?r \<le> 3"
      proof (rule ccontr)
        assume "\<not> ?r \<le> 3"
        then have "4 \<le> ?r" by simp
        then have "?s div ?r \<le> ?s div 4" by (intro zdiv_mono2) simp_all
        also have "\<dots> \<le> 250" using s by auto
        finally show False using big by simp
      qed
      with range have r: "?r = 1 \<or> ?r = 2 \<or> ?r = 3" by linarith
      show ?thesis
        unfolding compass_rate_formula [OF range False acq, of k]
        using wrapped_divider_values [OF s r big] by blast
    qed
  qed
  then show "1 \<le> ?c'" and "?c' \<le> uint (sample_rate
                 (conf (fst (snd (mpu9250_set_compass_sample_rate k dev rate bus)))))"
    and "rates_inv (conf (fst (snd (mpu9250_set_compass_sample_rate k dev rate bus))))"
    using assms(1) by (simp_all add: compass_rate_keeps_sample_rate rates_inv_def)
qed

lemma call_setter_inv:
  assumes "rates_inv (conf dev)" "fst (call_setter k dev c bus) = 0"
  shows "rates_inv (conf (fst (snd (call_setter k dev c bus))))"
  using assms
  by (cases c)
     (simp_all add: rates_inv_def power_keeps_rates fsr_keeps_rates
        sample_rate_inv [unfolded rates_inv_def] compass_rate_inv(1) [unfolded rates_inv_def])

lemma run_setters_inv:
  "rates_inv (conf dev) \<Longrightarrow> run_setters k dev cs bus = Some (dev', bus') \<Longrightarrow>
     rates_inv (conf dev')"
proof (induction cs arbitrary: dev bus)
  case Nil
  then show ?case by simp
next
  case (Cons c cs)
  obtain rc d1 b1 where c: "call_setter k dev c bus = (rc, d1, b1)"
    by (cases "call_setter k dev c bus")
  with Cons.prems(2) have rc: "rc = 0" and rest: "run_setters k d1 cs b1 = Some (dev', bus')"
    by (auto split: if_splits)
  have "rates_inv (conf d1)"
    using call_setter_inv [OF Cons.prems(1), of k c bus] c rc by simp
  then show ?case using Cons.IH rest by blast
qed

lemma run_setters_snoc:
  "run_setters k dev (cs @ [c]) bus = Some (dev', bus') \<Longrightarrow>
     \<exists>d1 b1. run_setters k dev cs bus = Some (d1, b1) \<and> call_setter k d1 c b1 = (0, dev', bus')"
proof (induction cs arbitrary: dev bus)
  case Nil
  then show ?case by (auto split: prod.splits if_splits)
next
  case (Cons x xs)
  then show ?case by (auto split: prod.splits if_splits)
qed

lemma default_rates_inv: "rates_inv DEFAULT_STATUS"
  by (simp add: rates_inv_def DEFAULT_STATUS_def)

section \<open>The claims\<close>

text \<open>
  C1. Claimed: each of the three power setters writes the power-management-1
  register exactly when the transition ends with all three subsystems off or
  starts from all three off, and otherwise only toggles its standby bit in
  power-management-2. As amended, for a state-changing call on an acquired
  bus: the accelerometer and compass setters write power-management-1 exactly
  under that condition; the gyroscope setter writes it on every transition
  (the PLL clock when turning on, the sleep bit when the other two are off,
  the internal oscillator otherwise); the accelerometer and gyroscope setters
  otherwise write only power-management-2, clearing or setting their standby
  mask in the value read; the compass setter never writes power-management-2
  but the slave-1 data-out and user-control registers.
\<close>

theorem power_setters_pwr_mgmt_1:
  assumes "acquirable bus (trace bus)"
  shows "(accel_pwr (conf dev) \<noteq> p \<longrightarrow>
            written_regs (issued bus (snd (snd (mpu9250_set_accel_power k dev p bus)))) =
              (if all_off (conf dev)
                  \<or> all_off (conf (fst (snd (mpu9250_set_accel_power k dev p bus))))
               then [MPU9250_PWR_MGMT_1_REG, MPU9250_PWR_MGMT_2_REG]
               else [MPU9250_PWR_MGMT_2_REG])
            \<and> (\<exists>v. filter (is_access_to MPU9250_PWR_MGMT_2_REG)
                      (issued bus (snd (snd (mpu9250_set_accel_power k dev p bus)))) =
                    [Read_reg (DEV_ADDR dev) MPU9250_PWR_MGMT_2_REG v,
                     Write_reg (DEV_ADDR dev) MPU9250_PWR_MGMT_2_REG
                       (if p = MPU9250_SENSOR_PWR_ON then v AND NOT (MPU9250_PWR_ACCEL k)
                        else v OR MPU9250_PWR_ACCEL k)])) \<and>
         (compass_pwr (conf dev) \<noteq> p \<longrightarrow>
            written_regs (issued bus (snd (snd (mpu9250_set_compass_power k dev p bus)))) =
              (if all_off (conf dev)
                  \<or> all_off (conf (fst (snd (mpu9250_set_compass_power k dev p bus))))
               then [MPU9250_PWR_MGMT_1_REG, MPU9250_SLAVE1_DATA_OUT_REG, MPU9250_USER_CTRL_REG]
               else [MPU9250_SLAVE1_DATA_OUT_REG, MPU9250_USER_CTRL_REG])) \<and>
         (gyro_pwr (conf dev) \<noteq> p \<longrightarrow>
            written_regs (issued bus (snd (snd (mpu9250_set_gyro_power k dev p bus)))) =
              [MPU9250_PWR_MGMT_1_REG, MPU9250_PWR_MGMT_2_REG]
            \<and> filter (is_write_to MPU9250_PWR_MGMT_1_REG)
                 (issued bus (snd (snd (mpu9250_set_gyro_power k dev p bus)))) =
               [Write_reg (DEV_ADDR dev) MPU9250_PWR_MGMT_1_REG
                  (if p = MPU9250_SENSOR_PWR_ON then MPU9250_PWR_PLL k
                   else if accel_pwr (conf dev) = MPU9250_SENSOR_PWR_OFF
                           \<and> compass_pwr (conf dev) = MPU9250_SENSOR_PWR_OFF
                        then BIT_PWR_MGMT1_SLEEP k else MPU9250_PWR_WAKEUP k)]
            \<and> (\<exists>v. filter (is_access_to MPU9250_PWR_MGMT_2_REG)
                      (issued bus (snd (snd (mpu9250_set_gyro_power k dev p bus)))) =
                    [Read_reg (DEV_ADDR dev) MPU9250_PWR_MGMT_2_REG v,
                     Write_reg (DEV_ADDR dev) MPU9250_PWR_MGMT_2_REG
                       (if p = MPU9250_SENSOR_PWR_ON then v AND NOT (MPU9250_PWR_GYRO k)
                        else v OR MPU9250_PWR_GYRO k)]))"
  using accel_power_writes [OF assms, of dev p k] accel_power_standby [OF assms, of dev p k]
    compass_power_writes [OF assms, of dev p k]
    gyro_power_writes [OF assms, of dev p k] gyro_power_pwr_mgmt_1_value [OF assms, of dev p k]
    gyro_power_standby [OF assms, of dev p k]
  by blast

theorem power_setters_pwr_mgmt_1_witness:
  "acquirable free_bus (trace free_bus) \<and>
   written_regs (issued free_bus
       (snd (snd (mpu9250_set_accel_power regs_h dev0 MPU9250_SENSOR_PWR_OFF free_bus)))) =
     [MPU9250_PWR_MGMT_2_REG] \<and>
   written_regs (issued free_bus
       (snd (snd (mpu9250_set_compass_power regs_h dev0 MPU9250_SENSOR_PWR_OFF free_bus)))) =
     [MPU9250_SLAVE1_DATA_OUT_REG, MPU9250_USER_CTRL_REG] \<and>
   filter (is_write_to MPU9250_PWR_MGMT_1_REG) (issued free_bus
       (snd (snd (mpu9250_set_gyro_power regs_h dev0 MPU9250_SENSOR_PWR_OFF free_bus)))) =
     [Write_reg 0x68 MPU9250_PWR_MGMT_1_REG 0x00]"
  using power_setters_pwr_mgmt_1 [of free_bus dev0 MPU9250_SENSOR_PWR_OFF regs_h]
  by (simp add: env_defs all_off_def mpu9250_set_accel_power_def mpu9250_set_compass_power_def
      mpu9250_set_gyro_power_def bus_defs Let_def)

text \<open>
  Turning the gyroscope on while the accelerometer and the compass are on
  writes power-management-1, although not all subsystems were off before and
  not all are off afterwards; and turning the compass off writes no
  power-management-2 standby bit.
\<close>

theorem gyro_on_writes_pwr_mgmt_1:
  "written_regs (issued free_bus
       (snd (snd (mpu9250_set_gyro_power regs_h dev_gyro_off MPU9250_SENSOR_PWR_ON free_bus)))) =
     [MPU9250_PWR_MGMT_1_REG, MPU9250_PWR_MGMT_2_REG] \<and>
   \<not> all_off (conf dev_gyro_off) \<and>
   \<not> all_off (conf (fst (snd
       (mpu9250_set_gyro_power regs_h dev_gyro_off MPU9250_SENSOR_PWR_ON free_bus)))) \<and>
   written_regs (issued free_bus
       (snd (snd (mpu9250_set_compass_power regs_h dev0 MPU9250_SENSOR_PWR_OFF free_bus)))) =
     [MPU9250_SLAVE1_DATA_OUT_REG, MPU9250_USER_CTRL_REG]"
  by (simp add: env_defs dev_gyro_off_def all_off_def mpu9250_set_gyro_power_def
      mpu9250_set_compass_power_def bus_defs Let_def)

text \<open>
  C2. Claimed: for every rate in [4,1000] \<open>set_sample_rate\<close> succeeds and stores
  \<open>1000/(round(1000/rate)-1+1)\<close>; outside [4,1000] it fails with the range
  error before any register write and changes nothing. As amended: the
  quotient is the truncating integer division of C, not a rounding; for a
  rate in [4,1000] that differs from the stored one and an acquired bus the
  call returns 0, writes the divider \<open>1000 div rate - 1\<close> and stores
  \<open>1000 div (1000 div rate)\<close>; a rate equal to the stored one returns 0 with
  no effect; a bus that cannot be acquired gives -1 with the configuration
  unchanged; a rate outside [4,1000] gives -2 with no event and no change.
\<close>

theorem set_sample_rate_stored:
  "(4 \<le> uint rate \<and> uint rate \<le> 1000 \<and> sample_rate (conf dev) \<noteq> rate
      \<and> acquirable bus (trace bus) \<longrightarrow>
      fst (mpu9250_set_sample_rate k dev rate bus) = 0
      \<and> uint (sample_rate (conf (fst (snd (mpu9250_set_sample_rate k dev rate bus)))))
          = 1000 div (1000 div uint rate)
      \<and> filter (is_write_to MPU9250_RATE_DIV_REG)
          (issued bus (snd (snd (mpu9250_set_sample_rate k dev rate bus)))) =
        [Write_reg (DEV_ADDR dev) MPU9250_RATE_DIV_REG
           (word_of_int (1000 div uint rate - 1))]) \<and>
   (4 \<le> uint rate \<and> uint rate \<le> 1000 \<and> sample_rate (conf dev) = rate \<longrightarrow>
      mpu9250_set_sample_rate k dev rate bus = (0, dev, bus)) \<and>
   (4 \<le> uint rate \<and> uint rate \<le> 1000 \<and> sample_rate (conf dev) \<noteq> rate
      \<and> \<not> acquirable bus (trace bus) \<longrightarrow>
      mpu9250_set_sample_rate k dev rate bus = (-1, dev, emit (Acquire False) bus)) \<and>
   (uint rate < 4 \<or> 1000 < uint rate \<longrightarrow>
      mpu9250_set_sample_rate k dev rate bus = (-2, dev, bus))"
  using sample_rate_stored(1,2,3) [of rate dev bus k] sample_rate_unchanged [of rate dev k bus]
    sample_rate_rejected [of rate k dev bus] sample_rate_busy [of bus k dev rate]
  by blast

theorem set_sample_rate_stored_witness:
  "fst (mpu9250_set_sample_rate regs_h dev0 7 free_bus) = 0 \<and>
   uint (sample_rate (conf (fst (snd (mpu9250_set_sample_rate regs_h dev0 7 free_bus))))) = 7 \<and>
   mpu9250_set_sample_rate regs_h (dev_rate 50) 50 free_bus = (0, dev_rate 50, free_bus) \<and>
   mpu9250_set_sample_rate regs_h dev0 7 busy_bus = (-1, dev0, emit (Acquire False) busy_bus) \<and>
   mpu9250_set_sample_rate regs_h dev0 3 free_bus = (-2, dev0, free_bus) \<and>
   mpu9250_set_sample_rate regs_h dev0 1001 free_bus = (-2, dev0, free_bus)"
  using set_sample_rate_stored [of 7 dev0 free_bus regs_h]
    set_sample_rate_stored [of 50 "dev_rate 50" free_bus regs_h]
    set_sample_rate_stored [of 7 dev0 busy_bus regs_h]
    set_sample_rate_stored [of 3 dev0 free_bus regs_h]
    set_sample_rate_stored [of 1001 dev0 free_bus regs_h]
  by (simp add: env_defs dev_rate_def)

text \<open>
  At the requested rate 7 the driver stores 7 (\<open>1000 div 7 = 142\<close>,
  \<open>1000 div 142 = 7\<close>), where the formula with \<open>round\<close> gives 6
  (\<open>round (1000/7) = 143\<close>, \<open>1000 div 143 = 6\<close>); and with a bus that
  cannot be acquired the call does not succeed at a rate inside [4,1000].
\<close>

theorem set_sample_rate_truncates:
  "fst (mpu9250_set_sample_rate regs_h dev0 7 free_bus) = 0 \<and>
   uint (sample_rate (conf (fst (snd (mpu9250_set_sample_rate regs_h dev0 7 free_bus))))) = 7 \<and>
   spec_sample_rate 7 = 6 \<and>
   fst (mpu9250_set_sample_rate regs_h dev0 7 busy_bus) = -1"
  by (simp add: env_defs mpu9250_set_sample_rate_def conf_lpf_def bus_defs Let_def
      MPU9250_MIN_SAMPLE_RATE_def MPU9250_MAX_SAMPLE_RATE_def spec_sample_rate_def round_def)

text \<open>
  C3. Claimed: the filter is a monotonic step function of half the stored
  rate over the thresholds 184, 92, 42, 20 and 10 Hz, it is recomputed on
  every successful \<open>set_sample_rate\<close> call, and its bandwidth never exceeds
  half the stored rate for stored rates in [4,1000]. As amended: the
  selection is that monotonic threshold table (bandwidths 184, 92, 41, 20, 10
  and, below 10 Hz, 5 Hz); every successful call that changes the rate writes
  the code selected for half the new stored rate to the configuration
  register, while a call with the stored rate returns without touching the
  filter; the bandwidth is at most half the stored rate whenever the stored
  rate is at least 10 Hz, and for stored rates below 20 Hz the 5 Hz filter is
  selected.
\<close>

theorem lpf_selection:
  "(\<forall>h1 h2. h1 \<le> h2 \<longrightarrow>
       lpf_bandwidth (lpf_setting_of h1) \<le> lpf_bandwidth (lpf_setting_of h2)) \<and>
   lpf_bandwidth (lpf_setting_of h) =
     (if 184 \<le> uint h then 184 else if 92 \<le> uint h then 92 else if 42 \<le> uint h then 41
      else if 20 \<le> uint h then 20 else if 10 \<le> uint h then 10 else 5) \<and>
   (4 \<le> uint rate \<and> uint rate \<le> 1000 \<and> sample_rate (conf dev) \<noteq> rate
      \<and> acquirable bus (trace bus) \<longrightarrow>
      fst (mpu9250_set_sample_rate k dev rate bus) = 0
      \<and> filter (is_write_to MPU9250_CONFIG)
           (issued bus (snd (snd (mpu9250_set_sample_rate k dev rate bus)))) =
         [Write_reg (DEV_ADDR dev) MPU9250_CONFIG
            (lpf_val k (lpf_setting_of (drop_bit 1
               (sample_rate (conf (fst (snd (mpu9250_set_sample_rate k dev rate bus))))))))]) \<and>
   (4 \<le> uint rate \<and> uint rate \<le> 1000 \<and> sample_rate (conf dev) = rate \<longrightarrow>
      mpu9250_set_sample_rate k dev rate bus = (0, dev, bus)) \<and>
   (10 \<le> uint s \<longrightarrow> lpf_bandwidth (lpf_setting_of (drop_bit 1 s)) \<le> uint s div 2) \<and>
   (uint s < 20 \<longrightarrow> lpf_setting_of (drop_bit 1 s) = MPU9250_FILTER_5HZ)"
  using lpf_mono lpf_bandwidth_of [of h] sample_rate_stored(1,4) [of rate dev bus k]
    sample_rate_unchanged [of rate dev k bus] lpf_nyquist [of s] lpf_low_rates [of s]
  by blast

theorem lpf_selection_witness:
  "lpf_bandwidth (lpf_setting_of 10) \<le> lpf_bandwidth (lpf_setting_of 250) \<and>
   lpf_bandwidth (lpf_setting_of 250) = 184 \<and>
   filter (is_write_to MPU9250_CONFIG)
     (issued free_bus (snd (snd (mpu9250_set_sample_rate regs_h dev0 100 free_bus)))) =
     [Write_reg 0x68 MPU9250_CONFIG 3] \<and>
   mpu9250_set_sample_rate regs_h (dev_rate 50) 50 free_bus = (0, dev_rate 50, free_bus) \<and>
   lpf_bandwidth (lpf_setting_of (drop_bit 1 100)) \<le> uint (100 :: u16) div 2 \<and>
   lpf_setting_of (drop_bit 1 8) = MPU9250_FILTER_5HZ"
  using lpf_selection [of 250 100 dev0 free_bus regs_h 100]
    lpf_selection [of 250 50 "dev_rate 50" free_bus regs_h 8]
  by (simp add: env_defs dev_rate_def mpu9250_set_sample_rate_def conf_lpf_def bus_defs Let_def
      MPU9250_MIN_SAMPLE_RATE_def MPU9250_MAX_SAMPLE_RATE_def lpf_setting_of_def)

text \<open>
  Requesting 4 Hz succeeds and stores 4 Hz; half of it is 2 Hz, the filter
  selected is the 5 Hz one, and 5 exceeds 2. Requesting the stored rate
  again succeeds without any event, so nothing is recomputed.
\<close>

theorem lpf_above_half_rate:
  "fst (mpu9250_set_sample_rate regs_h dev0 4 free_bus) = 0 \<and>
   sample_rate (conf (fst (snd (mpu9250_set_sample_rate regs_h dev0 4 free_bus)))) = 4 \<and>
   lpf_setting_of (drop_bit 1 (sample_rate (conf (fst (snd
       (mpu9250_set_sample_rate regs_h dev0 4 free_bus)))))) = MPU9250_FILTER_5HZ \<and>
   \<not> lpf_bandwidth (lpf_setting_of (drop_bit 1 (sample_rate (conf (fst (snd
         (mpu9250_set_sample_rate regs_h dev0 4 free_bus)))))))
       \<le> uint (sample_rate (conf (fst (snd
            (mpu9250_set_sample_rate regs_h dev0 4 free_bus))))) div 2 \<and>
   fst (mpu9250_set_sample_rate regs_h (dev_rate 50) 50 free_bus) = 0 \<and>
   issued free_bus (snd (snd (mpu9250_set_sample_rate regs_h (dev_rate 50) 50 free_bus))) = []"
  by (simp add: env_defs dev_rate_def mpu9250_set_sample_rate_def conf_lpf_def bus_defs Let_def
      MPU9250_MIN_SAMPLE_RATE_def MPU9250_MAX_SAMPLE_RATE_def lpf_setting_of_def)

text \<open>
  C4. Claimed: for every compass rate \<open>r\<close> in [1,100] not above the stored
  sensor rate, \<open>set_compass_sample_rate\<close> succeeds and stores
  \<open>sensor_rate/(round(sensor_rate/r)-1+1)\<close>; otherwise it fails with the
  range error and changes nothing. As amended: the quotient is the truncating
  integer division; for \<open>r\<close> in [1,100], not above the sensor rate, different
  from the stored compass rate, on an acquired bus and with
  \<open>sensor_rate div r\<close> at most 256 (the divider fits its byte), the call
  returns 0, writes the divider \<open>sensor_rate div r - 1\<close> and stores
  \<open>sensor_rate div (sensor_rate div r)\<close>; \<open>r\<close> equal to the stored compass
  rate returns 0 with no effect; a bus that cannot be acquired gives -1 with
  the configuration unchanged; \<open>r\<close> outside [1,100] or above the sensor rate
  gives -2 with no event and no change.
\<close>

theorem set_compass_sample_rate_stored:
  "(1 \<le> uint rate \<and> uint rate \<le> 100 \<and> uint rate \<le> uint (sample_rate (conf dev))
      \<and> compass_sample_rate (conf dev) \<noteq> rate \<and> acquirable bus (trace bus)
      \<and> uint (sample_rate (conf dev)) div uint rate \<le> 256 \<longrightarrow>
      fst (mpu9250_set_compass_sample_rate k dev rate bus) = 0
      \<and> uint (compass_sample_rate
                (conf (fst (snd (mpu9250_set_compass_sample_rate k dev rate bus)))))
          = uint (sample_rate (conf dev)) div (uint (sample_rate (conf dev)) div uint rate)
      \<and> filter is_write
          (issued bus (snd (snd (mpu9250_set_compass_sample_rate k dev rate bus)))) =
        [Write_reg (DEV_ADDR dev) MPU9250_SLAVE4_CTRL_REG
           (word_of_int (uint (sample_rate (conf dev)) div uint rate - 1))]) \<and>
   (1 \<le> uint rate \<and> uint rate \<le> 100 \<and> uint rate \<le> uint (sample_rate (conf dev))
      \<and> compass_sample_rate (conf dev) = rate \<longrightarrow>
      mpu9250_set_compass_sample_rate k dev rate bus = (0, dev, bus)) \<and>
   (1 \<le> uint rate \<and> uint rate \<le> 100 \<and> uint rate \<le> uint (sample_rate (conf dev))
      \<and> compass_sample_rate (conf dev) \<noteq> rate \<and> \<not> acquirable bus (trace bus) \<longrightarrow>
      mpu9250_set_compass_sample_rate k dev rate bus = (-1, dev, emit (Acquire False) bus)) \<and>
   (uint rate < 1 \<or> 100 < uint rate \<or> uint (sample_rate (conf dev)) < uint rate \<longrightarrow>
      mpu9250_set_compass_sample_rate k dev rate bus = (-2, dev, bus))"
  using compass_rate_stored [of rate dev bus k] compass_rate_unchanged [of rate dev k bus]
    compass_rate_rejected [of rate dev k bus] compass_sample_rate_busy [of bus k dev rate]
  by blast

theorem set_compass_sample_rate_stored_witness:
  "fst (mpu9250_set_compass_sample_rate regs_h (dev_rate 50) 7 free_bus) = 0 \<and>
   uint (compass_sample_rate
      (conf (fst (snd (mpu9250_set_compass_sample_rate regs_h (dev_rate 50) 7 free_bus))))) = 7 \<and>
   mpu9250_set_compass_sample_rate regs_h (dev_rate 50) 7 busy_bus =
     (-1, dev_rate 50, emit (Acquire False) busy_bus) \<and>
   mpu9250_set_compass_sample_rate regs_h (dev_rate 50) 0 free_bus = (-2, dev_rate 50, free_bus) \<and>
   mpu9250_set_compass_sample_rate regs_h (dev_rate 50) 101 free_bus =
     (-2, dev_rate 50, free_bus) \<and>
   mpu9250_set_compass_sample_rate regs_h (dev_rate 50) 51 free_bus =
     (-2, dev_rate 50, free_bus)"
  using set_compass_sample_rate_stored [of 7 "dev_rate 50" free_bus regs_h]
    set_compass_sample_rate_stored [of 7 "dev_rate 50" busy_bus regs_h]
    set_compass_sample_rate_stored [of 0 "dev_rate 50" free_bus regs_h]
    set_compass_sample_rate_stored [of 101 "dev_rate 50" free_bus regs_h]
    set_compass_sample_rate_stored [of 51 "dev_rate 50" free_bus regs_h]
  by (simp add: env_defs dev_rate_def)

text \<open>
  With the sensor rate 50 Hz the request of 3 Hz stores 3 (\<open>50 div 3 = 16\<close>,
  \<open>50 div 16 = 3\<close>), where the formula with \<open>round\<close> gives 2
  (\<open>round (50/3) = 17\<close>, \<open>50 div 17 = 2\<close>). With the sensor rate 1000 Hz the
  request of 1 Hz succeeds, but the divider 999 does not fit its byte: 231 is
  written and the stored compass rate is \<open>1000 div 232 = 4\<close>, where the
  formula gives 1. And on a bus that cannot be acquired a valid request does
  not succeed.
\<close>

theorem set_compass_sample_rate_wraps:
  "fst (mpu9250_set_compass_sample_rate regs_h (dev_rate 50) 3 free_bus) = 0 \<and>
   compass_sample_rate
     (conf (fst (snd (mpu9250_set_compass_sample_rate regs_h (dev_rate 50) 3 free_bus)))) = 3 \<and>
   spec_compass_rate 50 3 = 2 \<and>
   fst (mpu9250_set_compass_sample_rate regs_h (dev_rate 1000) 1 free_bus) = 0 \<and>
   compass_sample_rate
     (conf (fst (snd (mpu9250_set_compass_sample_rate regs_h (dev_rate 1000) 1 free_bus)))) = 4 \<and>
   spec_compass_rate 1000 1 = 1 \<and>
   filter is_write
     (issued free_bus (snd (snd
        (mpu9250_set_compass_sample_rate regs_h (dev_rate 1000) 1 free_bus)))) =
     [Write_reg 0x68 MPU9250_SLAVE4_CTRL_REG 231] \<and>
   fst (mpu9250_set_compass_sample_rate regs_h (dev_rate 50) 7 busy_bus) = -1"
  by (simp add: env_defs dev_rate_def mpu9250_set_compass_sample_rate_def bus_defs Let_def
      MPU9250_MIN_COMP_SMPL_RATE_def MPU9250_MAX_COMP_SMPL_RATE_def spec_compass_rate_def
      round_def)

text \<open>
  C5. Claimed: in every configuration reachable by successful setter calls
  the stored compass rate lies within [1,100] and never exceeds the stored
  sensor rate. As amended: in every configuration reached from the default
  configuration by setter calls that all succeed, the stored sensor rate is 0
  (not yet set) or within [4,1000] and the stored compass rate is at most 199
  (0 until it is set); and directly after a successful
  \<open>set_compass_sample_rate\<close> call the stored compass rate is at least 1 and at
  most the stored sensor rate. The stored compass rate is not confined to
  [1,100], and \<open>set_sample_rate\<close> does not revalidate it.
\<close>

theorem reachable_rates:
  assumes "conf dev = DEFAULT_STATUS"
  shows "(run_setters k dev calls bus = Some (dev', bus') \<longrightarrow>
            (uint (sample_rate (conf dev')) = 0
               \<or> (4 \<le> uint (sample_rate (conf dev')) \<and> uint (sample_rate (conf dev')) \<le> 1000))
            \<and> uint (compass_sample_rate (conf dev')) \<le> 199) \<and>
         (run_setters k dev (calls @ [Set_compass_sample_rate r]) bus = Some (dev'', bus'') \<longrightarrow>
            1 \<le> uint (compass_sample_rate (conf dev''))
            \<and> uint (compass_sample_rate (conf dev'')) \<le> uint (sample_rate (conf dev'')))"
proof (intro conjI impI)
  have i: "rates_inv (conf dev)" using assms default_rates_inv by simp
  {
    assume "run_setters k dev calls bus = Some (dev', bus')"
    from run_setters_inv [OF i this] have inv: "rates_inv (conf dev')" .
    then show "uint (sample_rate (conf dev')) = 0
       \<or> (4 \<le> uint (sample_rate (conf dev')) \<and> uint (sample_rate (conf dev')) \<le> 1000)"
      by (auto simp: rates_inv_def)
    from inv show "uint (compass_sample_rate (conf dev')) \<le> 199"
      by (simp add: rates_inv_def)
  }
  {
    assume "run_setters k dev (calls @ [Set_compass_sample_rate r]) bus = Some (dev'', bus'')"
    from run_setters_snoc [OF this] obtain d1 b1 where
      1: "run_setters k dev calls bus = Some (d1, b1)"
      and 2: "mpu9250_set_compass_sample_rate k d1 r b1 = (0, dev'', bus'')" by auto
    from run_setters_inv [OF i 1] have inv: "rates_inv (conf d1)" .
    from 2 have rc: "fst (mpu9250_set_compass_sample_rate k d1 r b1) = 0" by simp
    from compass_rate_inv(2,3) [OF inv rc] 2
    show "1 \<le> uint (compass_sample_rate (conf dev''))"
      and "uint (compass_sample_rate (conf dev'')) \<le> uint (sample_rate (conf dev''))"
      by simp_all
  }
qed

theorem reachable_rates_witness:
  "conf dev0 = DEFAULT_STATUS \<and>
   rates_of (run_setters regs_h dev0 [Set_sample_rate 166] free_bus) = Some (166, 0) \<and>
   rates_of (run_setters regs_h dev0 ([Set_sample_rate 166] @ [Set_compass_sample_rate 100])
      free_bus) = Some (166, 166)"
  using reachable_rates [of dev0 regs_h "[Set_sample_rate 166]" free_bus]
  by (simp add: rates_of_def env_defs setter_defs)

text \<open>
  Before any setter call both stored rates are 0. After setting the sample
  rate to 50 Hz, the compass rate to 10 Hz and the sample rate to 4 Hz, all
  successfully, the stored compass rate 10 exceeds the stored sample rate 4.
  After setting the sample rate to 166 Hz and the compass rate to 100 Hz the
  stored compass rate is 166.
\<close>

theorem compass_rate_not_invariant:
  "rates_of (run_setters regs_h dev0 [] free_bus) = Some (0, 0) \<and>
   rates_of (run_setters regs_h dev0
       [Set_sample_rate 50, Set_compass_sample_rate 10, Set_sample_rate 4] free_bus)
     = Some (4, 10) \<and>
   rates_of (run_setters regs_h dev0 [Set_sample_rate 166, Set_compass_sample_rate 100] free_bus)
     = Some (166, 166)"
  by (simp add: rates_of_def env_defs setter_defs)

text \<open>
  C6. During bring-up the compass identity register is read exactly once: in
  the events of \<open>mpu9250_reset_and_init\<close>, and of \<open>mpu9250_init\<close> once the
  I2C master is initialized, the only access to it is one read, and the byte
  it carries is the answer of the device to the history up to that read. If
  that one answer is not the expected value, \<open>compass_init\<close> fails (returns
  -1), \<open>mpu9250_reset_and_init\<close> returns -2 and \<open>mpu9250_init\<close> returns that
  -2, whatever the register would answer later: there is no retry. The -2
  differs from the -1 that \<open>mpu9250_init\<close> returns when the I2C master cannot
  be initialized.
\<close>

theorem compass_identity_mismatch:
  "(respond bus (trace (conf_bypass k dev 1 bus)) (DEV_COMP_ADDR dev) COMPASS_WHOAMI_REG 0
      \<noteq> MPU9250_COMP_WHOAMI_ANSWER k \<longrightarrow> fst (compass_init k dev bus) = -1) \<and>
   (let evs = issued bus (snd (snd (mpu9250_reset_and_init k dev bus)));
        whoami = respond bus (trace bus @ events_before COMPASS_WHOAMI_REG evs)
                   (DEV_COMP_ADDR dev) COMPASS_WHOAMI_REG 0
    in filter (is_access_to COMPASS_WHOAMI_REG) evs =
         [Read_reg (DEV_COMP_ADDR dev) COMPASS_WHOAMI_REG whoami]
       \<and> (whoami \<noteq> MPU9250_COMP_WHOAMI_ANSWER k \<longrightarrow>
            fst (mpu9250_reset_and_init k dev bus) = -2)) \<and>
   (\<not> master_init_fails bus \<longrightarrow>
      (let evs = issued bus (snd (snd (mpu9250_init k dev p bus)));
           whoami = respond bus (trace bus @ events_before COMPASS_WHOAMI_REG evs)
                      (comp_addr p) COMPASS_WHOAMI_REG 0
       in filter (is_access_to COMPASS_WHOAMI_REG) evs =
            [Read_reg (comp_addr p) COMPASS_WHOAMI_REG whoami]
          \<and> (whoami \<noteq> MPU9250_COMP_WHOAMI_ANSWER k \<longrightarrow>
               fst (mpu9250_init k dev p bus) = -2))) \<and>
   (master_init_fails bus \<longrightarrow> fst (mpu9250_init k dev p bus) = -1)"
  unfolding Let_def
  using compass_init_read(4) [of bus k dev] reset_and_init_read [of bus k dev]
    init_read [of bus k dev p] init_master_failure [of bus k dev p]
  by blast

text \<open>
  On a bus whose registers read 0 up to the identity read and 0x48, the
  expected identity, afterwards, initialization fails with -2 after a single
  read of the identity register.
\<close>

theorem compass_identity_mismatch_witness:
  "fst (compass_init regs_h dev0 late_bus) = -1 \<and>
   fst (mpu9250_reset_and_init regs_h dev0 late_bus) = -2 \<and>
   filter (is_access_to COMPASS_WHOAMI_REG)
     (issued late_bus (snd (snd (mpu9250_reset_and_init regs_h dev0 late_bus)))) =
     [Read_reg 0x0C COMPASS_WHOAMI_REG 0] \<and>
   respond late_bus (trace (snd (snd (mpu9250_reset_and_init regs_h dev0 late_bus))))
     0x0C COMPASS_WHOAMI_REG 0 = MPU9250_COMP_WHOAMI_ANSWER regs_h \<and>
   fst (mpu9250_init regs_h dev0 (params dev0) late_bus) = -2 \<and>
   fst (mpu9250_init regs_h dev0 (params dev0) (late_bus\<lparr>master_init_fails := True\<rparr>)) = -1"
  using compass_identity_mismatch [of late_bus regs_h dev0 "params dev0"]
    compass_identity_mismatch [of "late_bus\<lparr>master_init_fails := True\<rparr>" regs_h dev0
      "params dev0"]
  by (simp add: env_defs late_bus_def init_defs setter_defs)

text \<open>
  C7. In \<open>mpu9250_enable_wom\<close> on an acquired bus, power-management-2 is
  read once and written once. The byte read, \<open>v\<close>, is the answer of the
  device to the history up to that read, and the byte written is
  \<open>v & ~(MPU9250_PWR_ACCEL | ~MPU9250_PWR_GYRO)\<close>, for every such answer. This
  keeps exactly the gyroscope bits of \<open>v\<close> that are outside the accelerometer
  mask, and it differs from clearing the accelerometer bits and setting the
  gyroscope bits whenever \<open>v\<close> does not already have all gyroscope bits set.
\<close>

theorem enable_wom_pwr_mgmt_2:
  assumes "acquirable bus (trace bus)"
  shows "let evs = issued bus (snd (snd (mpu9250_enable_wom k dev thr freq bus)));
             v = respond bus (trace bus @ events_before MPU9250_PWR_MGMT_2_REG evs)
                   (DEV_ADDR dev) MPU9250_PWR_MGMT_2_REG 0
         in filter (is_access_to MPU9250_PWR_MGMT_2_REG) evs =
              [Read_reg (DEV_ADDR dev) MPU9250_PWR_MGMT_2_REG v,
               Write_reg (DEV_ADDR dev) MPU9250_PWR_MGMT_2_REG
                 (v AND NOT (MPU9250_PWR_ACCEL k OR NOT (MPU9250_PWR_GYRO k)))]
            \<and> v AND NOT (MPU9250_PWR_ACCEL k OR NOT (MPU9250_PWR_GYRO k))
                = v AND MPU9250_PWR_GYRO k AND NOT (MPU9250_PWR_ACCEL k)
            \<and> (v AND MPU9250_PWR_GYRO k \<noteq> MPU9250_PWR_GYRO k \<longrightarrow>
                 v AND NOT (MPU9250_PWR_ACCEL k OR NOT (MPU9250_PWR_GYRO k))
                   \<noteq> (v AND NOT (MPU9250_PWR_ACCEL k)) OR MPU9250_PWR_GYRO k)"
proof -
  let ?evs = "issued bus (snd (snd (mpu9250_enable_wom k dev thr freq bus)))"
  let ?v = "respond bus (trace bus @ events_before MPU9250_PWR_MGMT_2_REG ?evs)
              (DEV_ADDR dev) MPU9250_PWR_MGMT_2_REG 0"
  have "filter (is_access_to MPU9250_PWR_MGMT_2_REG) ?evs =
      [Read_reg (DEV_ADDR dev) MPU9250_PWR_MGMT_2_REG ?v,
       Write_reg (DEV_ADDR dev) MPU9250_PWR_MGMT_2_REG
         (?v AND NOT (MPU9250_PWR_ACCEL k OR NOT (MPU9250_PWR_GYRO k)))]"
    using assms
    by (simp add: mpu9250_enable_wom_def conf_bypass_def bus_defs Let_def events_before_def)
  then show ?thesis
    unfolding Let_def
    using wom_bits [of ?v "MPU9250_PWR_ACCEL k" "MPU9250_PWR_GYRO k"]
      wom_bits_differ [of ?v "MPU9250_PWR_GYRO k" "MPU9250_PWR_ACCEL k"]
    by blast
qed

text \<open>
  Where the register reads 0xFF the driver writes 0x07; where it reads 0 the
  driver writes 0, not the gyroscope mask 0x07.
\<close>

theorem enable_wom_pwr_mgmt_2_witness:
  "acquirable ones_bus (trace ones_bus) \<and>
   filter (is_access_to MPU9250_PWR_MGMT_2_REG)
     (issued ones_bus (snd (snd (mpu9250_enable_wom regs_h dev0 5 6 ones_bus)))) =
     [Read_reg 0x68 MPU9250_PWR_MGMT_2_REG 0xFF, Write_reg 0x68 MPU9250_PWR_MGMT_2_REG 0x07] \<and>
   filter (is_access_to MPU9250_PWR_MGMT_2_REG)
     (issued free_bus (snd (snd (mpu9250_enable_wom regs_h dev0 5 6 free_bus)))) =
     [Read_reg 0x68 MPU9250_PWR_MGMT_2_REG 0, Write_reg 0x68 MPU9250_PWR_MGMT_2_REG 0] \<and>
   (0 :: u8) AND NOT (0x38 OR NOT 0x07) \<noteq> (0 AND NOT 0x38) OR 0x07"
  using enable_wom_pwr_mgmt_2 [of ones_bus regs_h dev0 5 6]
    enable_wom_pwr_mgmt_2 [of free_bus regs_h dev0 5 6]
  by (simp add: env_defs ones_bus_def mpu9250_enable_wom_def conf_bypass_def bus_defs Let_def
      events_before_def)

text \<open>
  C8. When the bus cannot be acquired, each of the seven setters leaves the
  device descriptor, and with it the configuration snapshot, unchanged; and
  whenever the call gets as far as the acquisition (the request differs from
  the stored value and passes the setter's validation), it returns -1 having
  issued nothing but the failed acquisition.
\<close>

theorem setters_bus_error:
  assumes "\<not> acquirable bus (trace bus)"
  shows "(fst (snd (mpu9250_set_accel_power k dev p bus)) = dev \<and>
          (accel_pwr (conf dev) \<noteq> p \<longrightarrow>
             mpu9250_set_accel_power k dev p bus = (-1, dev, emit (Acquire False) bus))) \<and>
         (fst (snd (mpu9250_set_gyro_power k dev p bus)) = dev \<and>
          (gyro_pwr (conf dev) \<noteq> p \<longrightarrow>
             mpu9250_set_gyro_power k dev p bus = (-1, dev, emit (Acquire False) bus))) \<and>
         (fst (snd (mpu9250_set_compass_power k dev p bus)) = dev \<and>
          (compass_pwr (conf dev) \<noteq> p \<longrightarrow>
             mpu9250_set_compass_power k dev p bus = (-1, dev, emit (Acquire False) bus))) \<and>
         (fst (snd (mpu9250_set_gyro_fsr k dev gf bus)) = dev \<and>
          (gyro_fsr (conf dev) \<noteq> gf
             \<and> gf \<in> {MPU9250_GYRO_FSR_250DPS, MPU9250_GYRO_FSR_500DPS,
                      MPU9250_GYRO_FSR_1000DPS, MPU9250_GYRO_FSR_2000DPS} \<longrightarrow>
             mpu9250_set_gyro_fsr k dev gf bus = (-1, dev, emit (Acquire False) bus))) \<and>
         (fst (snd (mpu9250_set_accel_fsr k dev af bus)) = dev \<and>
          (accel_fsr (conf dev) \<noteq> af
             \<and> af \<in> {MPU9250_ACCEL_FSR_2G, MPU9250_ACCEL_FSR_4G,
                      MPU9250_ACCEL_FSR_8G, MPU9250_ACCEL_FSR_16G} \<longrightarrow>
             mpu9250_set_accel_fsr k dev af bus = (-1, dev, emit (Acquire False) bus))) \<and>
         (fst (snd (mpu9250_set_sample_rate k dev rate bus)) = dev \<and>
          (4 \<le> uint rate \<and> uint rate \<le> 1000 \<and> sample_rate (conf dev) \<noteq> rate \<longrightarrow>
             mpu9250_set_sample_rate k dev rate bus = (-1, dev, emit (Acquire False) bus))) \<and>
         (fst (snd (mpu9250_set_compass_sample_rate k dev cr bus)) = dev \<and>
          (1 \<le> uint cr \<and> uint cr \<le> 100 \<and> uint cr \<le> uint (sample_rate (conf dev))
             \<and> compass_sample_rate (conf dev) \<noteq> cr \<longrightarrow>
             mpu9250_set_compass_sample_rate k dev cr bus =
               (-1, dev, emit (Acquire False) bus)))"
  using accel_power_busy [OF assms, of k dev p] gyro_power_busy [OF assms, of k dev p]
    compass_power_busy [OF assms, of k dev p] gyro_fsr_busy [OF assms, of k dev gf]
    accel_fsr_busy [OF assms, of k dev af] sample_rate_busy [OF assms, of k dev rate]
    compass_sample_rate_busy [OF assms, of k dev cr]
  by blast

theorem setters_bus_error_witness:
  "\<not> acquirable busy_bus (trace busy_bus) \<and>
   mpu9250_set_accel_power regs_h (dev_rate 50) MPU9250_SENSOR_PWR_OFF busy_bus =
     (-1, dev_rate 50, emit (Acquire False) busy_bus) \<and>
   mpu9250_set_gyro_power regs_h (dev_rate 50) MPU9250_SENSOR_PWR_OFF busy_bus =
     (-1, dev_rate 50, emit (Acquire False) busy_bus) \<and>
   mpu9250_set_compass_power regs_h (dev_rate 50) MPU9250_SENSOR_PWR_OFF busy_bus =
     (-1, dev_rate 50, emit (Acquire False) busy_bus) \<and>
   mpu9250_set_gyro_fsr regs_h (dev_rate 50) MPU9250_GYRO_FSR_2000DPS busy_bus =
     (-1, dev_rate 50, emit (Acquire False) busy_bus) \<and>
   mpu9250_set_accel_fsr regs_h (dev_rate 50) MPU9250_ACCEL_FSR_2G busy_bus =
     (-1, dev_rate 50, emit (Acquire False) busy_bus) \<and>
   mpu9250_set_sample_rate regs_h (dev_rate 50) 100 busy_bus =
     (-1, dev_rate 50, emit (Acquire False) busy_bus) \<and>
   mpu9250_set_compass_sample_rate regs_h (dev_rate 50) 10 busy_bus =
     (-1, dev_rate 50, emit (Acquire False) busy_bus)"
  using setters_bus_error [of busy_bus regs_h "dev_rate 50" MPU9250_SENSOR_PWR_OFF
      MPU9250_GYRO_FSR_2000DPS MPU9250_ACCEL_FSR_2G 100 10]
  by (simp add: env_defs dev_rate_def)

text \<open>
  C9. A power setter called with the power state already recorded in the
  configuration returns 0 and hands back the descriptor and the bus as they
  were: no event is issued and nothing changes.
\<close>

theorem power_same_state_noop:
  "(accel_pwr (conf dev) = p \<longrightarrow> mpu9250_set_accel_power k dev p bus = (0, dev, bus)) \<and>
   (gyro_pwr (conf dev) = p \<longrightarrow> mpu9250_set_gyro_power k dev p bus = (0, dev, bus)) \<and>
   (compass_pwr (conf dev) = p \<longrightarrow> mpu9250_set_compass_power k dev p bus = (0, dev, bus))"
  by (simp add: mpu9250_set_accel_power_def mpu9250_set_gyro_power_def
      mpu9250_set_compass_power_def)

theorem power_same_state_noop_witness:
  "mpu9250_set_accel_power regs_h dev0 MPU9250_SENSOR_PWR_ON free_bus = (0, dev0, free_bus) \<and>
   mpu9250_set_gyro_power regs_h dev0 MPU9250_SENSOR_PWR_ON free_bus = (0, dev0, free_bus) \<and>
   mpu9250_set_compass_power regs_h dev0 MPU9250_SENSOR_PWR_ON free_bus = (0, dev0, free_bus)"
  using power_same_state_noop [of dev0 MPU9250_SENSOR_PWR_ON regs_h free_bus]
  by (simp add: dev0_def DEFAULT_STATUS_def)

text \<open>
  C10. When the stored gyroscope (accelerometer) range is none of the four
  enumerators, \<open>mpu9250_read_gyro\<close> (\<open>mpu9250_read_accel\<close>) returns -2 and
  hands back the output structure and the bus untouched: no acquisition, no
  event. The code differs from the -1 that the same read returns, with a
  valid range, when the bus cannot be acquired.
\<close>

theorem read_unsupported_range:
  "(gyro_fsr (conf dev) \<notin> {MPU9250_GYRO_FSR_250DPS, MPU9250_GYRO_FSR_500DPS,
        MPU9250_GYRO_FSR_1000DPS, MPU9250_GYRO_FSR_2000DPS}
      \<longrightarrow> mpu9250_read_gyro dev output bus = (-2, output, bus)) \<and>
   (accel_fsr (conf dev) \<notin> {MPU9250_ACCEL_FSR_2G, MPU9250_ACCEL_FSR_4G,
        MPU9250_ACCEL_FSR_8G, MPU9250_ACCEL_FSR_16G}
      \<longrightarrow> mpu9250_read_accel dev output bus = (-2, output, bus)) \<and>
   (gyro_fsr (conf dev) \<in> {MPU9250_GYRO_FSR_250DPS, MPU9250_GYRO_FSR_500DPS,
        MPU9250_GYRO_FSR_1000DPS, MPU9250_GYRO_FSR_2000DPS} \<and> \<not> acquirable bus (trace bus)
      \<longrightarrow> fst (mpu9250_read_gyro dev output bus) = -1) \<and>
   (accel_fsr (conf dev) \<in> {MPU9250_ACCEL_FSR_2G, MPU9250_ACCEL_FSR_4G,
        MPU9250_ACCEL_FSR_8G, MPU9250_ACCEL_FSR_16G} \<and> \<not> acquirable bus (trace bus)
      \<longrightarrow> fst (mpu9250_read_accel dev output bus) = -1)"
proof -
  have g: "mpu9250_read_gyro dev output bus = (-2, output, bus)"
    if "gyro_fsr (conf dev) \<notin> {MPU9250_GYRO_FSR_250DPS, MPU9250_GYRO_FSR_500DPS,
        MPU9250_GYRO_FSR_1000DPS, MPU9250_GYRO_FSR_2000DPS}"
    using that by (cases "gyro_fsr (conf dev)") (simp_all add: mpu9250_read_gyro_def)
  have a: "mpu9250_read_accel dev output bus = (-2, output, bus)"
    if "accel_fsr (conf dev) \<notin> {MPU9250_ACCEL_FSR_2G, MPU9250_ACCEL_FSR_4G,
        MPU9250_ACCEL_FSR_8G, MPU9250_ACCEL_FSR_16G}"
    using that by (cases "accel_fsr (conf dev)") (simp_all add: mpu9250_read_accel_def)
  have gb: "fst (mpu9250_read_gyro dev output bus) = -1"
    if "gyro_fsr (conf dev) \<in> {MPU9250_GYRO_FSR_250DPS, MPU9250_GYRO_FSR_500DPS,
        MPU9250_GYRO_FSR_1000DPS, MPU9250_GYRO_FSR_2000DPS}" "\<not> acquirable bus (trace bus)"
    using that by (auto simp: mpu9250_read_gyro_def read_axes_busy)
  have ab: "fst (mpu9250_read_accel dev output bus) = -1"
    if "accel_fsr (conf dev) \<in> {MPU9250_ACCEL_FSR_2G, MPU9250_ACCEL_FSR_4G,
        MPU9250_ACCEL_FSR_8G, MPU9250_ACCEL_FSR_16G}" "\<not> acquirable bus (trace bus)"
    using that by (auto simp: mpu9250_read_accel_def read_axes_busy)
  from g a gb ab show ?thesis by blast
qed

theorem read_unsupported_range_witness:
  "mpu9250_read_gyro dev_bad_fsr out0 free_bus = (-2, out0, free_bus) \<and>
   mpu9250_read_accel dev_bad_fsr out0 free_bus = (-2, out0, free_bus) \<and>
   fst (mpu9250_read_gyro dev0 out0 busy_bus) = -1 \<and>
   fst (mpu9250_read_accel dev0 out0 busy_bus) = -1"
  using read_unsupported_range [of dev_bad_fsr out0 free_bus]
    read_unsupported_range [of dev0 out0 busy_bus]
  by (simp add: dev_bad_fsr_def env_defs)

end
